theory Spec2Isabelle
  imports Complex_Main
begin

section \<open>JavaScript values in numeric slots\<close>

text \<open>
  The fields of the cropper's geometric objects hold JavaScript numbers, and some of them
  start as \<open>null\<close> (\<open>boundaries.width\<close>) or are read from an object that lacks the key
  (\<open>{}.left\<close> is \<open>undefined\<close>). A numeric slot is therefore one of: \<open>undefined\<close>, \<open>null\<close>,
  \<open>NaN\<close>, the two infinities, or a finite number. Finite numbers are real numbers here: the
  rounding of IEEE doubles and the sign of zero are not represented.
\<close>

datatype jsnum = Undefined | Null | NaN | PInf | NInf | Num real

text \<open>\<open>ToNumber\<close> of the language: \<open>undefined\<close> becomes \<open>NaN\<close>, \<open>null\<close> becomes \<open>0\<close>.\<close>

fun ToNumber :: "jsnum \<Rightarrow> jsnum" where
  "ToNumber Undefined = NaN"
| "ToNumber Null = Num 0"
| "ToNumber NaN = NaN"
| "ToNumber PInf = PInf"
| "ToNumber NInf = NInf"
| "ToNumber (Num r) = Num r"

text \<open>\<open>ToBoolean\<close>: \<open>undefined\<close>, \<open>null\<close>, \<open>NaN\<close> and \<open>0\<close> are falsy.\<close>

fun truthy :: "jsnum \<Rightarrow> bool" where
  "truthy (Num r) = (r \<noteq> 0)"
| "truthy PInf = True"
| "truthy NInf = True"
| "truthy Undefined = False"
| "truthy Null = False"
| "truthy NaN = False"

text \<open>\<open>a || b\<close> on values.\<close>

definition js_or :: "jsnum \<Rightarrow> jsnum \<Rightarrow> jsnum" where
  "js_or a b = (if truthy a then a else b)"

text \<open>Division of two numbers (operands already passed through \<open>ToNumber\<close>).\<close>

fun div_num :: "jsnum \<Rightarrow> jsnum \<Rightarrow> jsnum" where
  "div_num (Num a) (Num b) =
     (if b \<noteq> 0 then Num (a / b)
      else if a = 0 then NaN
      else if 0 < a then PInf else NInf)"
| "div_num (Num a) PInf = Num 0"
| "div_num (Num a) NInf = Num 0"
| "div_num PInf (Num b) = (if 0 \<le> b then PInf else NInf)"
| "div_num NInf (Num b) = (if 0 \<le> b then NInf else PInf)"
| "div_num _ _ = NaN"

definition js_div :: "jsnum \<Rightarrow> jsnum \<Rightarrow> jsnum" where
  "js_div a b = div_num (ToNumber a) (ToNumber b)"

text \<open>Multiplication of two numbers.\<close>

fun mul_num :: "jsnum \<Rightarrow> jsnum \<Rightarrow> jsnum" where
  "mul_num (Num a) (Num b) = Num (a * b)"
| "mul_num (Num a) PInf = (if a = 0 then NaN else if 0 < a then PInf else NInf)"
| "mul_num (Num a) NInf = (if a = 0 then NaN else if 0 < a then NInf else PInf)"
| "mul_num PInf (Num b) = (if b = 0 then NaN else if 0 < b then PInf else NInf)"
| "mul_num NInf (Num b) = (if b = 0 then NaN else if 0 < b then NInf else PInf)"
| "mul_num PInf PInf = PInf"
| "mul_num PInf NInf = NInf"
| "mul_num NInf PInf = NInf"
| "mul_num NInf NInf = PInf"
| "mul_num _ _ = NaN"

definition js_mul :: "jsnum \<Rightarrow> jsnum \<Rightarrow> jsnum" where
  "js_mul a b = mul_num (ToNumber a) (ToNumber b)"

text \<open>The comparison \<open>a < b\<close>: false as soon as one side is \<open>NaN\<close>.\<close>

fun lt_num :: "jsnum \<Rightarrow> jsnum \<Rightarrow> bool" where
  "lt_num (Num a) (Num b) = (a < b)"
| "lt_num (Num a) PInf = True"
| "lt_num NInf (Num b) = True"
| "lt_num NInf PInf = True"
| "lt_num _ _ = False"

definition js_lt :: "jsnum \<Rightarrow> jsnum \<Rightarrow> bool" where
  "js_lt a b = lt_num (ToNumber a) (ToNumber b)"

definition js_gt :: "jsnum \<Rightarrow> jsnum \<Rightarrow> bool" where
  "js_gt a b = js_lt b a"

text \<open>\<open>Math.min\<close> and \<open>Math.max\<close>: \<open>NaN\<close> as soon as one argument is \<open>NaN\<close>.\<close>

definition min_num :: "jsnum \<Rightarrow> jsnum \<Rightarrow> jsnum" where
  "min_num a b = (if a = NaN \<or> b = NaN then NaN else if lt_num b a then b else a)"

definition max_num :: "jsnum \<Rightarrow> jsnum \<Rightarrow> jsnum" where
  "max_num a b = (if a = NaN \<or> b = NaN then NaN else if lt_num a b then b else a)"

definition Math_min3 :: "jsnum \<Rightarrow> jsnum \<Rightarrow> jsnum \<Rightarrow> jsnum" where
  "Math_min3 a b c = min_num (min_num (ToNumber a) (ToNumber b)) (ToNumber c)"

definition Math_min :: "jsnum \<Rightarrow> jsnum \<Rightarrow> jsnum" where
  "Math_min a b = min_num (ToNumber a) (ToNumber b)"

definition Math_max :: "jsnum \<Rightarrow> jsnum \<Rightarrow> jsnum" where
  "Math_max a b = max_num (ToNumber a) (ToNumber b)"

text \<open>
  \<open>a <= b\<close> read as a statement about two numbers: neither is \<open>NaN\<close> and \<open>b\<close> is not
  below \<open>a\<close>.
\<close>

definition le_num :: "jsnum \<Rightarrow> jsnum \<Rightarrow> bool" where
  "le_num a b = (a \<noteq> NaN \<and> b \<noteq> NaN \<and> \<not> lt_num b a)"

definition js_le :: "jsnum \<Rightarrow> jsnum \<Rightarrow> bool" where
  "js_le a b = le_num (ToNumber a) (ToNumber b)"

text \<open>
  Addition and subtraction of two numbers; \<open>Math.round\<close> (halves go up), \<open>Math.floor\<close> and
  \<open>Math.ceil\<close>.
\<close>

fun neg_num :: "jsnum \<Rightarrow> jsnum" where
  "neg_num (Num a) = Num (- a)"
| "neg_num PInf = NInf"
| "neg_num NInf = PInf"
| "neg_num _ = NaN"

fun add_num :: "jsnum \<Rightarrow> jsnum \<Rightarrow> jsnum" where
  "add_num (Num a) (Num b) = Num (a + b)"
| "add_num (Num a) PInf = PInf"
| "add_num (Num a) NInf = NInf"
| "add_num PInf (Num b) = PInf"
| "add_num NInf (Num b) = NInf"
| "add_num PInf PInf = PInf"
| "add_num NInf NInf = NInf"
| "add_num _ _ = NaN"

definition js_add :: "jsnum \<Rightarrow> jsnum \<Rightarrow> jsnum" where
  "js_add a b = add_num (ToNumber a) (ToNumber b)"

definition js_sub :: "jsnum \<Rightarrow> jsnum \<Rightarrow> jsnum" where
  "js_sub a b = add_num (ToNumber a) (neg_num (ToNumber b))"

fun round_num :: "jsnum \<Rightarrow> jsnum" where
  "round_num (Num r) = Num (of_int \<lfloor>r + 1 / 2\<rfloor>)"
| "round_num v = v"

fun floor_num :: "jsnum \<Rightarrow> jsnum" where
  "floor_num (Num r) = Num (of_int \<lfloor>r\<rfloor>)"
| "floor_num v = v"

fun ceil_num :: "jsnum \<Rightarrow> jsnum" where
  "ceil_num (Num r) = Num (of_int \<lceil>r\<rceil>)"
| "ceil_num v = v"

definition Math_round :: "jsnum \<Rightarrow> jsnum" where
  "Math_round a = round_num (ToNumber a)"

definition Math_floor :: "jsnum \<Rightarrow> jsnum" where
  "Math_floor a = floor_num (ToNumber a)"

definition Math_ceil :: "jsnum \<Rightarrow> jsnum" where
  "Math_ceil a = ceil_num (ToNumber a)"

text \<open>A finite number; a finite number without a fractional part.\<close>

fun integral :: "jsnum \<Rightarrow> bool" where
  "integral (Num r) = (of_int \<lfloor>r\<rfloor> = r)"
| "integral _ = False"


text \<open>
  An object reference that may be \<open>null\<close> or \<open>undefined\<close> (\<open>visibleArea\<close>, an optional
  \<open>center\<close>). Every object is truthy.
\<close>

datatype 'a ref = NullRef | UndefinedRef | Obj 'a

fun truthy_ref :: "'a ref \<Rightarrow> bool" where
  "truthy_ref (Obj _) = True"
| "truthy_ref NullRef = False"
| "truthy_ref UndefinedRef = False"

section \<open>The data model of the component\<close>

text \<open>
  \<open>size\<close> is \<open>{width, height}\<close> (\<open>imageSize\<close>, \<open>boundaries\<close>); \<open>rect\<close> adds \<open>left\<close> and \<open>top\<close>
  (\<open>coordinates\<close>, \<open>visibleArea\<close>). A key that an object lacks reads as \<open>Undefined\<close>, so a
  \<open>rect\<close> also stands for the partial objects of the source: \<open>{}\<close>, a point \<open>{left, top}\<close>
  and a default size \<open>{width, height}\<close>.
\<close>

record size =
  width :: jsnum
  height :: jsnum

record rect = size +
  left :: jsnum
  top :: jsnum

definition empty_object :: rect where
  "empty_object = \<lparr>width = Undefined, height = Undefined, left = Undefined, top = Undefined\<rparr>"

text \<open>\<open>{left, top, right, bottom}\<close>: position restrictions and area restrictions.\<close>

record limits =
  left_bound :: jsnum
  top_bound :: jsnum
  right_bound :: jsnum
  bottom_bound :: jsnum

definition empty_limits :: limits where
  "empty_limits = \<lparr>left_bound = Undefined, top_bound = Undefined,
     right_bound = Undefined, bottom_bound = Undefined\<rparr>"

record size_restrictions =
  minWidth :: jsnum
  minHeight :: jsnum
  maxWidth :: jsnum
  maxHeight :: jsnum

record aspect_ratio =
  minimum :: jsnum
  maximum :: jsnum

text \<open>The \<open>scale\<close> part of a manipulate-image event: \<open>{factor, center}\<close>.\<close>

record scale =
  factor :: jsnum
  center :: "rect ref"

text \<open>
  Modelled from the spec: the event classes of \<open>core/events\<close> are not among the sources.
  A gesture event has a kind and carries its deltas and its anchor. The constructors only
  store their arguments: \<open>new ManipulateImageEvent(move, scale)\<close> has the parts \<open>move\<close>
  and \<open>scale\<close>; the events that the stencil emits carry the dragged directions.
\<close>

datatype event =
    ManipulateImageEvent (event_move: rect) (event_scale: scale)
  | MoveEvent rect
  | ResizeEvent limits

text \<open>
  A transform given to \<open>applyTransform\<close> is an object of new coordinate values or a function
  from the current coordinates to such an object; the argument is one transform or an array.
\<close>

datatype transform = Static rect | Dynamic "rect \<Rightarrow> rect"

datatype transforms = Single transform | Many "transform list"

text \<open>A prop of type \<open>[Function, Object]\<close>.\<close>

datatype ('p, 'r) function_or_object = IsFunction "'p \<Rightarrow> 'r" | IsObject 'r

text \<open>
  A DOM element as far as the boundary algorithms can observe it: the width and height
  that the layout gives it.
\<close>

datatype element = Element jsnum jsnum

text \<open>The prop \<open>defaultBoundaries\<close> of type \<open>[Function, String]\<close>.\<close>

datatype boundaries_prop = BoundariesFunction "element \<Rightarrow> size \<Rightarrow> size" | BoundariesString string

text \<open>The props \<open>minWidth\<close>, ... of type \<open>[Number, String]\<close>, possibly not given.\<close>

datatype prop_value = NotGiven | NumberProp jsnum | StringProp string

datatype error = Error string


section \<open>The injected algorithms\<close>

text \<open>
  The component receives its geometry algorithms as props and imports the others from
  \<open>core\<close>. They are parameters of the model: nothing is assumed about what they compute,
  except that they return. An algorithm of the source takes one object of named arguments;
  an object with few keys is a curried function here (the keys are named at each field), an
  object built from \<open>getPublicProperties()\<close> is a record. The keys that the source marks
  as deprecated (\<open>imageWidth\<close>, \<open>imageHeight\<close>, \<open>stencilWidth\<close>, \<open>stencilHeight\<close>, \<open>props\<close>,
  \<open>cropper\<close>, \<open>image\<close>, the spread of the size restrictions) repeat values that are
  passed under another key or expose the component itself; they are left out.
\<close>

record public_properties =
  coefficient_param :: jsnum
  visibleArea_param :: "rect ref"
  coordinates_param :: rect
  boundaries_param :: size
  sizeRestrictions_param :: size_restrictions
  positionRestrictions_param :: limits
  areaRestrictions_param :: limits
  aspectRatio_param :: aspect_ratio
  imageRestriction_param :: string

record event_params = public_properties +
  event_param :: event

record manipulate_params = event_params +
  settings_resize_param :: bool

record algorithms =
  \<comment> \<open>props of type Function\<close>
  moveAlgorithm :: "event_params \<Rightarrow> rect"
  resizeAlgorithm :: "event_params \<Rightarrow> rect"
  \<comment> \<open>\<open>{cropper, stretcher, imageSize}\<close>; its effect is on the layout of the element\<close>
  initStretcher :: "element \<Rightarrow> size \<Rightarrow> element"
  \<comment> \<open>\<open>{visibleArea, coordinates, aspectRatio, positionRestrictions, sizeRestrictions}\<close>\<close>
  fitCoordinates :: "rect ref \<Rightarrow> rect \<Rightarrow> aspect_ratio \<Rightarrow> limits \<Rightarrow> size_restrictions \<Rightarrow> rect"
  \<comment> \<open>\<open>{imageSize, boundaries, visibleArea, coordinates, areaRestrictions}\<close>\<close>
  fitVisibleArea :: "size \<Rightarrow> size \<Rightarrow> rect ref \<Rightarrow> rect \<Rightarrow> limits \<Rightarrow> rect ref"
  \<comment> \<open>\<open>{imageSize, boundaries, coordinates, areaRestrictions}\<close>\<close>
  defaultVisibleArea :: "(size \<times> size \<times> rect ref \<times> limits, rect ref) function_or_object"
  \<comment> \<open>\<open>{boundaries, imageSize, aspectRatio, sizeRestrictions, visibleArea}\<close>\<close>
  defaultSize :: "(size \<times> size \<times> aspect_ratio \<times> size_restrictions \<times> rect ref, rect) function_or_object"
  \<comment> \<open>\<open>{coordinates, imageSize, visibleArea}\<close>\<close>
  defaultPosition :: "(rect \<times> size \<times> rect ref, rect) function_or_object"
  defaultBoundaries :: boundaries_prop
  \<comment> \<open>\<open>{imageSize, imageRestriction}\<close>\<close>
  areaRestrictionsAlgorithm :: "size \<Rightarrow> string \<Rightarrow> limits"
  \<comment> \<open>\<open>{imageSize, minWidth, minHeight, maxWidth, maxHeight}\<close>\<close>
  sizeRestrictionsAlgorithm :: "size \<Rightarrow> size_restrictions \<Rightarrow> size_restrictions"
  \<comment> \<open>\<open>{imageSize, imageRestriction, visibleArea}\<close>\<close>
  positionRestrictionsAlgorithm :: "size \<Rightarrow> string \<Rightarrow> rect ref \<Rightarrow> limits"
  \<comment> \<open>the deprecated prop \<open>restrictions\<close>, same arguments as \<open>sizeRestrictionsAlgorithm\<close>\<close>
  restrictions :: "(size \<Rightarrow> size_restrictions \<Rightarrow> size_restrictions) option"
  \<comment> \<open>imports from \<open>core\<close>\<close>
  fillBoundaries :: "element \<Rightarrow> size \<Rightarrow> size"
  fitBoundaries :: "element \<Rightarrow> size \<Rightarrow> size"
  limitBy :: "limits \<Rightarrow> rect ref \<Rightarrow> limits"
  limitSizeRestrictions :: "size_restrictions \<Rightarrow> rect ref \<Rightarrow> size_restrictions"
  parseNumber :: "prop_value \<Rightarrow> jsnum"
  DEFAULT_COORDINATES :: rect
  \<comment> \<open>\<open>algorithms.*\<close>\<close>
  algorithms_limitBy :: "limits \<Rightarrow> rect ref \<Rightarrow> limits"
  \<comment> \<open>\<open>{sizeRestrictions, imageSize, boundaries, positionRestrictions, imageRestriction}\<close>\<close>
  algorithms_refineSizeRestrictions ::
    "size_restrictions \<Rightarrow> size \<Rightarrow> size \<Rightarrow> limits \<Rightarrow> string \<Rightarrow> size_restrictions"
  \<comment> \<open>\<open>{visibleArea, boundaries, areaRestrictions}\<close>\<close>
  algorithms_refineVisibleArea :: "rect ref \<Rightarrow> size \<Rightarrow> limits \<Rightarrow> rect ref"
  \<comment> \<open>\<open>{coordinates, transform, sizeRestrictions, positionRestrictions, aspectRatio, imageSize}\<close>\<close>
  algorithms_applyTransform ::
    "rect \<Rightarrow> transforms \<Rightarrow> size_restrictions \<Rightarrow> limits \<Rightarrow> aspect_ratio \<Rightarrow> size \<Rightarrow> rect"
  algorithms_roundCoordinates :: "public_properties \<Rightarrow> rect"
  \<comment> \<open>returns \<open>{visibleArea}\<close>\<close>
  algorithms_autoZoom :: "public_properties \<Rightarrow> rect ref"
  algorithms_normalizeEvent :: "event_params \<Rightarrow> event"
  \<comment> \<open>returns \<open>{visibleArea, coordinates}\<close>\<close>
  algorithms_manipulateImage :: "manipulate_params \<Rightarrow> rect ref \<times> rect"

section \<open>The state of the component\<close>

record stencil_props =
  aspectRatio :: jsnum
  minAspectRatio :: jsnum
  maxAspectRatio :: jsnum

record cropper =
  \<comment> \<open>props\<close>
  src :: "string option"
  minWidth_prop :: prop_value
  minHeight_prop :: prop_value
  maxWidth_prop :: prop_value
  maxHeight_prop :: prop_value
  canvas :: bool
  imageRestriction :: string
  roundResult :: bool
  priority :: string
  stencilProps :: stencil_props
  \<comment> \<open>data\<close>
  imageLoaded :: bool
  imageSize :: size
  boundaries :: size
  visibleArea :: "rect ref"
  coordinates :: rect
  delayedTransforms :: "transforms option"
  \<comment> \<open>\<open>$refs\<close>: is the image element mounted, the cropper element, and what the stencil's
      \<open>aspectRatios()\<close> answers when the stencil has that method\<close>
  image_ref :: bool
  cropper_ref :: element
  stencil_aspectRatios :: "aspect_ratio option"
  \<comment> \<open>\<open>settings.resize.stencil\<close>\<close>
  settings_resize_stencil :: bool
  \<comment> \<open>\<open>process.env.NODE_ENV\<close>\<close>
  NODE_ENV :: string

text \<open>
  What a method body does that an observer can see, in order: a call of an injected
  algorithm, an assignment to \<open>boundaries\<close>, \<open>visibleArea\<close> or \<open>coordinates\<close>, a console
  warning. A method that changes the component returns the new state and the list of its
  steps. The calls that the computed properties make are listed by the computed properties
  themselves (\<open>sizeRestrictions_eval\<close>), not among the steps of a method.
\<close>

datatype callee =
    InitStretcher | DefaultBoundaries | DefaultSize | DefaultVisibleArea
  | RefineVisibleArea | ApplyTransform | AutoZoom | FitVisibleArea | FitCoordinates
  | MoveAlgorithm | ResizeAlgorithm | ManipulateImage | NormalizeEvent | RoundCoordinates
  | LimitBy | LimitSizeRestrictions
  | AreaRestrictionsAlgorithm | SizeRestrictionsAlgorithm | PositionRestrictionsAlgorithm
  | RefineSizeRestrictions

datatype step =
    Call callee
  | SetBoundaries size
  | SetVisibleArea "rect ref"
  | SetCoordinates rect
  | Warn

type_synonym outcome = "cropper \<times> step list"

text \<open>\<open>after t r\<close>: the steps \<open>t\<close> happen, then those of \<open>r\<close>.\<close>

definition after :: "step list \<Rightarrow> outcome \<Rightarrow> outcome" where
  "after t r = (fst r, t @ snd r)"

text \<open>\<open>and_then r f\<close>: \<open>f\<close> runs in the state that \<open>r\<close> reached.\<close>

definition and_then :: "outcome \<Rightarrow> (cropper \<Rightarrow> outcome) \<Rightarrow> outcome" where
  "and_then r f = after (snd r) (f (fst r))"

subsection \<open>Computed properties\<close>

definition initialized :: "cropper \<Rightarrow> bool" where
  "initialized s = (truthy_ref (visibleArea s) \<and> imageLoaded s)"

definition coefficient :: "cropper \<Rightarrow> jsnum" where
  "coefficient s =
     (case visibleArea s of
        Obj va \<Rightarrow> js_div (width va) (width (boundaries s))
      | _ \<Rightarrow> Num 0)"

definition areaRestrictions_eval :: "algorithms \<Rightarrow> cropper \<Rightarrow> limits \<times> callee list" where
  "areaRestrictions_eval env s =
     (if imageLoaded s
      then (areaRestrictionsAlgorithm env (imageSize s) (imageRestriction s),
            [AreaRestrictionsAlgorithm])
      else (empty_limits, []))"

definition areaRestrictions :: "algorithms \<Rightarrow> cropper \<Rightarrow> limits" where
  "areaRestrictions env s = fst (areaRestrictions_eval env s)"

definition positionRestrictions_eval :: "algorithms \<Rightarrow> cropper \<Rightarrow> limits \<times> callee list" where
  "positionRestrictions_eval env s =
     (if initialized s
      then (positionRestrictionsAlgorithm env (imageSize s) (imageRestriction s) (visibleArea s),
            [PositionRestrictionsAlgorithm])
      else (empty_limits, []))"

definition positionRestrictions :: "algorithms \<Rightarrow> cropper \<Rightarrow> limits" where
  "positionRestrictions env s = fst (positionRestrictions_eval env s)"

text \<open>
  \<open>sizeRestrictions\<close>: the value and the algorithms that evaluating the property calls,
  in order. \<open>Infinity\<close> stands for a maximum that is not given.
\<close>

definition sizeRestrictions_eval ::
  "algorithms \<Rightarrow> cropper \<Rightarrow> size_restrictions \<times> callee list" where
  "sizeRestrictions_eval env s =
     (if truthy (width (boundaries s)) \<and> truthy (height (boundaries s)) then
        let algorithm = (case restrictions env of Some f \<Rightarrow> f | None \<Rightarrow> sizeRestrictionsAlgorithm env);
            sr = algorithm (imageSize s)
              \<lparr>minWidth = (if minWidth_prop s \<noteq> NotGiven then parseNumber env (minWidth_prop s) else Num 0),
               minHeight = (if minHeight_prop s \<noteq> NotGiven then parseNumber env (minHeight_prop s) else Num 0),
               maxWidth = (if maxWidth_prop s \<noteq> NotGiven then parseNumber env (maxWidth_prop s) else PInf),
               maxHeight = (if maxHeight_prop s \<noteq> NotGiven then parseNumber env (maxHeight_prop s) else PInf)\<rparr>;
            pr = positionRestrictions_eval env s
        in (algorithms_refineSizeRestrictions env sr (imageSize s) (boundaries s) (fst pr)
              (imageRestriction s),
            [SizeRestrictionsAlgorithm] @ snd pr @ [RefineSizeRestrictions])
      else
        (\<lparr>minWidth = Num 0, minHeight = Num 0, maxWidth = Num 0, maxHeight = Num 0\<rparr>, []))"

definition sizeRestrictions :: "algorithms \<Rightarrow> cropper \<Rightarrow> size_restrictions" where
  "sizeRestrictions env s = fst (sizeRestrictions_eval env s)"

subsection \<open>Methods\<close>

text \<open>
  The methods of the geometry: the gesture handlers, the transforms, reset and refresh, and
  the result. Loading and parsing the image, drawing on the canvas, the public \<open>move\<close> and
  the deferred \<open>setCoordinates\<close> are outside this model; what they leave in the state (the
  image size, the delayed transforms) is a field of the state.
\<close>

definition getAspectRatio :: "cropper \<Rightarrow> aspect_ratio" where
  "getAspectRatio s =
     (case stencil_aspectRatios s of
        Some r \<Rightarrow> r
      | None \<Rightarrow>
          \<lparr>minimum = js_or (aspectRatio (stencilProps s)) (minAspectRatio (stencilProps s)),
           maximum = js_or (aspectRatio (stencilProps s)) (maxAspectRatio (stencilProps s))\<rparr>)"

definition getPublicProperties :: "algorithms \<Rightarrow> cropper \<Rightarrow> public_properties" where
  "getPublicProperties env s =
     \<lparr>coefficient_param = coefficient s,
      visibleArea_param = visibleArea s,
      coordinates_param = coordinates s,
      boundaries_param = boundaries s,
      sizeRestrictions_param = sizeRestrictions env s,
      positionRestrictions_param = positionRestrictions env s,
      areaRestrictions_param = areaRestrictions env s,
      aspectRatio_param = getAspectRatio s,
      imageRestriction_param = imageRestriction s\<rparr>"


text \<open>\<open>{...properties, event}\<close>\<close>

definition with_event :: "public_properties \<Rightarrow> event \<Rightarrow> event_params" where
  "with_event p e = public_properties.extend p (event_params.fields e)"

text \<open>\<open>{...params, settings: {resize}}\<close>\<close>

definition with_settings :: "event_params \<Rightarrow> bool \<Rightarrow> manipulate_params" where
  "with_settings p b = event_params.extend p (manipulate_params.fields b)"

text \<open>
  \<open>onChangeCoordinates\<close> stores the new coordinates. The \<open>change\<close> notification it may
  emit afterwards (debounced or not) and the canvas redraw write none of the fields above.
\<close>

definition onChangeCoordinates :: "rect \<Rightarrow> cropper \<Rightarrow> outcome" where
  "onChangeCoordinates newCoordinates s =
     (s\<lparr>coordinates := newCoordinates\<rparr>, [SetCoordinates newCoordinates])"

text \<open>The assignment \<open>this.visibleArea = v\<close>.\<close>

definition set_visibleArea :: "rect ref \<Rightarrow> cropper \<Rightarrow> outcome" where
  "set_visibleArea v s = (s\<lparr>visibleArea := v\<rparr>, [SetVisibleArea v])"




definition truthy_src :: "string option \<Rightarrow> bool" where
  "truthy_src v = (case v of None \<Rightarrow> False | Some str \<Rightarrow> str \<noteq> [])"


text \<open>The arguments that \<open>onMove\<close> gives to the move algorithm.\<close>

definition onMove_params :: "algorithms \<Rightarrow> event \<Rightarrow> cropper \<Rightarrow> event_params" where
  "onMove_params env e s =
     with_event
       ((getPublicProperties env s)
          \<lparr>positionRestrictions_param :=
             algorithms_limitBy env (positionRestrictions env s) (visibleArea s),
           coordinates_param := coordinates s\<rparr>)
       (algorithms_normalizeEvent env (with_event (getPublicProperties env s) e))"

definition onMove :: "algorithms \<Rightarrow> event \<Rightarrow> cropper \<Rightarrow> outcome" where
  "onMove env e s =
     after [Call LimitBy, Call NormalizeEvent, Call MoveAlgorithm]
       (onChangeCoordinates (moveAlgorithm env (onMove_params env e s)) s)"

text \<open>
  The arguments that \<open>onResize\<close> gives to the resize algorithm. The magic number 20 is the
  approximation of the handler size.
\<close>

definition minimumSize :: "cropper \<Rightarrow> jsnum" where
  "minimumSize s =
     Math_min3 (width (coordinates s)) (height (coordinates s)) (js_mul (Num 20) (coefficient s))"

definition onResize_params :: "algorithms \<Rightarrow> event \<Rightarrow> cropper \<Rightarrow> event_params" where
  "onResize_params env e s =
     (let sr = sizeRestrictions env s in
      with_event
        ((getPublicProperties env s)
           \<lparr>positionRestrictions_param :=
              algorithms_limitBy env (positionRestrictions env s) (visibleArea s),
            sizeRestrictions_param :=
              sr\<lparr>minWidth := Math_max (minWidth sr) (minimumSize s),
                 minHeight := Math_max (minHeight sr) (minimumSize s)\<rparr>\<rparr>)
        (algorithms_normalizeEvent env (with_event (getPublicProperties env s) e)))"

definition onResize :: "algorithms \<Rightarrow> event \<Rightarrow> cropper \<Rightarrow> outcome" where
  "onResize env e s =
     after [Call LimitBy, Call NormalizeEvent, Call ResizeAlgorithm]
       (onChangeCoordinates (resizeAlgorithm env (onResize_params env e s)) s)"

text \<open>The arguments that \<open>onManipulateImage\<close> gives to \<open>algorithms.manipulateImage\<close>.\<close>

definition onManipulateImage_params :: "algorithms \<Rightarrow> event \<Rightarrow> cropper \<Rightarrow> manipulate_params" where
  "onManipulateImage_params env e s =
     with_settings
       ((with_event (getPublicProperties env s)
           (algorithms_normalizeEvent env (with_event (getPublicProperties env s) e)))
          \<lparr>imageRestriction_param := imageRestriction s\<rparr>)
       (settings_resize_stencil s)"

definition onManipulateImage :: "algorithms \<Rightarrow> event \<Rightarrow> cropper \<Rightarrow> outcome" where
  "onManipulateImage env e s =
     (let r = algorithms_manipulateImage env (onManipulateImage_params env e s) in
      after [Call NormalizeEvent, Call ManipulateImage]
        (and_then (set_visibleArea (fst r) s) (onChangeCoordinates (snd r))))"

text \<open>The public method \<open>zoom(factor, center)\<close>.\<close>

definition zoom_event :: "jsnum \<Rightarrow> rect ref \<Rightarrow> event" where
  "zoom_event f c = ManipulateImageEvent empty_object \<lparr>factor = js_div (Num 1) f, center = c\<rparr>"

definition zoom :: "algorithms \<Rightarrow> jsnum \<Rightarrow> rect ref \<Rightarrow> cropper \<Rightarrow> outcome" where
  "zoom env f c s = onManipulateImage env (zoom_event f c) s"

definition autoZoom :: "algorithms \<Rightarrow> rect \<Rightarrow> cropper \<Rightarrow> outcome" where
  "autoZoom env c s =
     after [Call AutoZoom]
       (set_visibleArea
          (algorithms_autoZoom env ((getPublicProperties env s)\<lparr>coordinates_param := c\<rparr>)) s)"

text \<open>
  The method \<open>applyTransform(transform, autoZoom, limited)\<close>: the restrictions it hands to
  \<open>algorithms.applyTransform\<close>, the coordinates that come back, and the method itself.
\<close>

definition applyTransform_sizeRestrictions ::
  "algorithms \<Rightarrow> bool \<Rightarrow> cropper \<Rightarrow> size_restrictions" where
  "applyTransform_sizeRestrictions env limited s =
     (if truthy_ref (visibleArea s) \<and> limited
      then limitSizeRestrictions env (sizeRestrictions env s) (visibleArea s)
      else sizeRestrictions env s)"

definition applyTransform_positionRestrictions :: "algorithms \<Rightarrow> cropper \<Rightarrow> limits" where
  "applyTransform_positionRestrictions env s =
     (if truthy_ref (visibleArea s)
      then limitBy env (positionRestrictions env s) (visibleArea s)
      else positionRestrictions env s)"

definition applyTransform_result :: "algorithms \<Rightarrow> transforms \<Rightarrow> bool \<Rightarrow> cropper \<Rightarrow> rect" where
  "applyTransform_result env transform limited s =
     algorithms_applyTransform env (coordinates s) transform
       (applyTransform_sizeRestrictions env limited s)
       (applyTransform_positionRestrictions env s)
       (getAspectRatio s) (imageSize s)"

definition applyTransform :: "algorithms \<Rightarrow> transforms \<Rightarrow> bool \<Rightarrow> bool \<Rightarrow> cropper \<Rightarrow> outcome" where
  "applyTransform env transform auto limited s =
     (let c = applyTransform_result env transform limited s in
      after
        ((if truthy_ref (visibleArea s) \<and> limited then [Call LimitSizeRestrictions] else []) @
         (if truthy_ref (visibleArea s) then [Call LimitBy] else []) @
         [Call ApplyTransform])
        (and_then (if auto then autoZoom env c s else (s, []))
           (onChangeCoordinates c)))"

definition onPropsChange :: "algorithms \<Rightarrow> cropper \<Rightarrow> outcome" where
  "onPropsChange env s = applyTransform env (Single (Static (coordinates s))) True True s"

text \<open>
  \<open>resetCoordinates\<close>. The default size is a function or an object; the default position
  is wrapped in a function that \<open>algorithms.applyTransform\<close> calls with the coordinates it
  has reached; transforms delayed by \<open>setCoordinates\<close> follow.
\<close>

definition resetCoordinates_defaultSize :: "algorithms \<Rightarrow> cropper \<Rightarrow> rect" where
  "resetCoordinates_defaultSize env s =
     (case defaultSize env of
        IsFunction f \<Rightarrow>
          f (boundaries s, imageSize s, getAspectRatio s, sizeRestrictions env s, visibleArea s)
      | IsObject d \<Rightarrow> d)"

definition resetCoordinates_position :: "algorithms \<Rightarrow> cropper \<Rightarrow> rect \<Rightarrow> rect" where
  "resetCoordinates_position env s =
     (\<lambda>c. case defaultPosition env of
             IsFunction f \<Rightarrow> f (c, imageSize s, visibleArea s)
           | IsObject p \<Rightarrow> p)"

definition breaks_size_restrictions :: "rect \<Rightarrow> size_restrictions \<Rightarrow> bool" where
  "breaks_size_restrictions d sr =
     (js_lt (width d) (minWidth sr) \<or> js_lt (height d) (minHeight sr) \<or>
      js_gt (width d) (maxWidth sr) \<or> js_gt (height d) (maxHeight sr))"

definition resetCoordinates_transforms :: "algorithms \<Rightarrow> cropper \<Rightarrow> transform list" where
  "resetCoordinates_transforms env s =
     [Static (resetCoordinates_defaultSize env s), Dynamic (resetCoordinates_position env s)] @
     (case delayedTransforms s of
        None \<Rightarrow> []
      | Some (Many ts) \<Rightarrow> ts
      | Some (Single t) \<Rightarrow> [t])"

definition resetCoordinates :: "algorithms \<Rightarrow> cropper \<Rightarrow> outcome" where
  "resetCoordinates env s =
     (if \<not> image_ref s then (s, [])
      else
        after
          ((case defaultSize env of IsFunction f \<Rightarrow> [Call DefaultSize] | IsObject d \<Rightarrow> []) @
           (if NODE_ENV s = ''development'' \<and>
               breaks_size_restrictions (resetCoordinates_defaultSize env s) (sizeRestrictions env s)
            then [Warn] else []))
          (and_then (applyTransform env (Many (resetCoordinates_transforms env s)) False True s)
             (\<lambda>s'. (s'\<lparr>delayedTransforms := None\<rparr>, []))))"

text \<open>
  \<open>updateBoundaries\<close>: the promise it returns is rejected with an error, or fulfilled;
  the assignment to \<open>boundaries\<close> has happened in both cases. A promise chain is run to
  its end here: what other handlers might do between the tick that stretches the element and
  the tick that measures it is not part of the model.
\<close>

definition cannot_fit :: error where
  "cannot_fit = Error ''It's impossible to fit the cropper in the current container''"

definition computed_boundaries :: "algorithms \<Rightarrow> cropper \<Rightarrow> size" where
  "computed_boundaries env s =
     (let cropper = initStretcher env (cropper_ref s) (imageSize s) in
      case defaultBoundaries env of
        BoundariesFunction f \<Rightarrow> f cropper (imageSize s)
      | BoundariesString str \<Rightarrow>
          if str = ''fill'' then fillBoundaries env cropper (imageSize s)
          else fitBoundaries env cropper (imageSize s))"

definition updateBoundaries :: "algorithms \<Rightarrow> cropper \<Rightarrow> (error + unit) \<times> outcome" where
  "updateBoundaries env s =
     (let b = computed_boundaries env s;
          r = (s\<lparr>cropper_ref := initStretcher env (cropper_ref s) (imageSize s),
                  boundaries := b\<rparr>,
               [Call InitStretcher, Call DefaultBoundaries, SetBoundaries b])
      in if \<not> truthy (width b) \<or> \<not> truthy (height b)
         then (Inl cannot_fit, r)
         else (Inr (), r))"

text \<open>The default visible area that \<open>resetVisibleArea\<close> refines.\<close>

definition resetVisibleArea_default :: "algorithms \<Rightarrow> cropper \<Rightarrow> rect ref" where
  "resetVisibleArea_default env s =
     (case defaultVisibleArea env of
        IsFunction f \<Rightarrow>
          f (imageSize s, boundaries s,
             (if priority s \<noteq> ''visibleArea'' then Obj (coordinates s) else UndefinedRef),
             areaRestrictions env s)
      | IsObject v \<Rightarrow> v)"

text \<open>The continuation of \<open>resetVisibleArea\<close> once the boundaries are updated.\<close>

definition resetVisibleArea_then :: "algorithms \<Rightarrow> cropper \<Rightarrow> outcome" where
  "resetVisibleArea_then env s =
     and_then
       (if priority s \<noteq> ''visibleArea''
        then and_then (set_visibleArea UndefinedRef s) (resetCoordinates env)
        else (s, []))
       (\<lambda>s1.
          and_then
            (after
               ((case defaultVisibleArea env of
                   IsFunction f \<Rightarrow> [Call DefaultVisibleArea] | IsObject v \<Rightarrow> []) @
                [Call RefineVisibleArea])
               (set_visibleArea
                  (algorithms_refineVisibleArea env (resetVisibleArea_default env s1)
                     (boundaries s1) (areaRestrictions env s1))
                  s1))
            (\<lambda>s3. if priority s3 = ''visibleArea'' then resetCoordinates env s3 else (s3, [])))"

definition resetVisibleArea :: "algorithms \<Rightarrow> cropper \<Rightarrow> outcome" where
  "resetVisibleArea env s =
     (case fst (updateBoundaries env s) of
        Inr _ \<Rightarrow> and_then (snd (updateBoundaries env s)) (resetVisibleArea_then env)
      | Inl _ \<Rightarrow> and_then (snd (updateBoundaries env s)) (set_visibleArea NullRef))"

definition reset :: "algorithms \<Rightarrow> cropper \<Rightarrow> outcome" where
  "reset env s = resetVisibleArea env s"

text \<open>The continuation of \<open>updateVisibleArea\<close> once the boundaries are updated.\<close>

definition updateVisibleArea_then :: "algorithms \<Rightarrow> cropper \<Rightarrow> outcome" where
  "updateVisibleArea_then env s =
     and_then
       (after [Call FitVisibleArea]
          (set_visibleArea
             (fitVisibleArea env (imageSize s) (boundaries s) (visibleArea s) (coordinates s)
                (areaRestrictions env s))
             s))
       (\<lambda>s1.
          let c = fitCoordinates env (visibleArea s1) (coordinates s1) (getAspectRatio s1)
                    (positionRestrictions env s1) (sizeRestrictions env s1)
          in (s1\<lparr>coordinates := c\<rparr>, [Call FitCoordinates, SetCoordinates c]))"

definition updateVisibleArea :: "algorithms \<Rightarrow> cropper \<Rightarrow> outcome" where
  "updateVisibleArea env s =
     (case fst (updateBoundaries env s) of
        Inr _ \<Rightarrow> and_then (snd (updateBoundaries env s)) (updateVisibleArea_then env)
      | Inl _ \<Rightarrow> and_then (snd (updateBoundaries env s)) (set_visibleArea NullRef))"

definition refresh :: "algorithms \<Rightarrow> cropper \<Rightarrow> outcome" where
  "refresh env s =
     (if truthy_src (src s) \<and> image_ref s then
        (if initialized s then updateVisibleArea env s else reset env s)
      else (s, []))"

section \<open>Restrictions as predicates\<close>


definition within_position :: "rect \<Rightarrow> limits \<Rightarrow> bool" where
  "within_position c pr =
     (js_le (left_bound pr) (left c) \<and> js_le (js_add (left c) (width c)) (right_bound pr) \<and>
      js_le (top_bound pr) (top c) \<and> js_le (js_add (top c) (height c)) (bottom_bound pr))"









section \<open>The algorithms of \<open>core\<close> that clamp and round\<close>

text \<open>
  Modelled from the spec: the clamp of a position into position restrictions
  (\<open>core/service\<close>) is not among the sources. Section 4.2 of the specification: a position
  is clamped "each axis independently against \<open>positionRestrictions\<close> so the rectangle's edges
  never cross the allowed bounds; width/height are unchanged". On one axis, a rectangle that
  starts before the lower bound is moved forward by what it lacks; otherwise a rectangle
  that ends beyond the upper bound is moved back by what it overshoots. A bound that the
  restrictions do not have (\<open>undefined\<close>) does not move anything.
\<close>

definition fit_axis :: "jsnum \<Rightarrow> jsnum \<Rightarrow> jsnum \<Rightarrow> jsnum \<Rightarrow> jsnum" where
  "fit_axis x w lo hi =
     (if lo \<noteq> Undefined \<and> js_gt lo x then js_add x (js_sub lo x)
      else if hi \<noteq> Undefined \<and> js_gt (js_add x w) hi then js_sub x (js_sub (js_add x w) hi)
      else x)"

text \<open>
  Modelled from the spec: the clamp of section 4.2 on both axes, "axis-independent (no
  coupling between horizontal and vertical clamps)".
\<close>

definition fit_position :: "rect \<Rightarrow> limits \<Rightarrow> rect" where
  "fit_position c pr =
     c\<lparr>left := fit_axis (left c) (width c) (left_bound pr) (right_bound pr),
       top := fit_axis (top c) (height c) (top_bound pr) (bottom_bound pr)\<rparr>"

text \<open>
  Modelled from the spec: \<open>algorithms.roundCoordinates\<close> (\<open>core/algorithms\<close>) is not among
  the sources. Section 4.8 of the specification: rounding "snaps the final crop rectangle to
  integer pixel boundaries by rounding position first, then adjusting width/height by the
  residual so the clamped invariants (min/max size, position bounds) still hold after
  rounding". So \<open>left\<close> and \<open>top\<close> are rounded. A size is rounded too and adjusted by the
  residual of its rounding: when the rounded size exceeds the maximum, the size is rounded
  down instead; when it falls below the minimum, it is rounded up instead. For the position
  bounds to still hold, the rounded rectangle is then clamped into the position
  restrictions.
\<close>

definition adjust_size :: "jsnum \<Rightarrow> jsnum \<Rightarrow> jsnum \<Rightarrow> jsnum" where
  "adjust_size x lo hi =
     (let r = Math_round x in
      if js_gt r hi then Math_floor x
      else if js_lt r lo then Math_ceil x
      else r)"

text \<open>
  Modelled from the spec: the rounding of section 4.8 as a whole: the position rounded, the
  sizes adjusted, and the result clamped into the position restrictions it is given.
\<close>

definition roundCoordinates :: "public_properties \<Rightarrow> rect" where
  "roundCoordinates p =
     (let c = coordinates_param p;
          sr = sizeRestrictions_param p
      in fit_position
           \<lparr>width = adjust_size (width c) (minWidth sr) (maxWidth sr),
            height = adjust_size (height c) (minHeight sr) (maxHeight sr),
            left = Math_round (left c),
            top = Math_round (top c)\<rparr>
           (positionRestrictions_param p))"

text \<open>
  Modelled from the spec: \<open>algorithms.applyTransform\<close> (\<open>core/algorithms\<close>) is not among
  the sources. The specification describes what follows the default size and the default
  position as a clamp: the default coordinates are derived "(size then position)" and
  clamped (section 4.7), "adjusting size before position to honor aspect ratio first"
  (section 4.6), and a default size outside the restrictions "is silently clamped by the
  subsequent fit step" (section 7). So the transforms are applied in order. A transform is
  an object of new values, or a function that gives such an object for the coordinates
  reached so far; a key that the object lacks leaves the value as it is. New sizes are
  clamped into the size restrictions, each size between its minimum and its maximum, and
  then brought to the aspect ratio by shrinking one side, though not below its minimum: the
  width when the ratio exceeds the maximum ratio, the height when it is below the minimum
  ratio. After the sizes, the position is clamped into the position restrictions.
\<close>

definition clamp_size :: "jsnum \<Rightarrow> jsnum \<Rightarrow> jsnum \<Rightarrow> jsnum" where
  "clamp_size x lo hi = Math_max lo (Math_min hi x)"

text \<open>
  Modelled from the spec: the clamp of a size, "adjusting size ... to honor aspect ratio"
  (section 4.6) within the size restrictions.
\<close>

definition fit_size :: "size \<Rightarrow> size_restrictions \<Rightarrow> aspect_ratio \<Rightarrow> size" where
  "fit_size d sr ar =
     (let w = clamp_size (width d) (minWidth sr) (maxWidth sr);
          h = clamp_size (height d) (minHeight sr) (maxHeight sr)
      in if truthy (maximum ar) \<and> js_gt (js_div w h) (maximum ar)
         then \<lparr>width = Math_max (minWidth sr) (Math_min w (js_mul h (maximum ar))), height = h\<rparr>
         else if truthy (minimum ar) \<and> js_lt (js_div w h) (minimum ar)
         then \<lparr>width = w, height = Math_max (minHeight sr) (Math_min h (js_div w (minimum ar)))\<rparr>
         else \<lparr>width = w, height = h\<rparr>)"





section \<open>Reading the steps of a method\<close>

text \<open>
  The milestones of a reset or a refresh: the assignments to \<open>boundaries\<close>, \<open>visibleArea\<close>
  and \<open>coordinates\<close>, and the calls of the algorithms that produce the assigned values.
\<close>

fun milestone :: "step \<Rightarrow> bool" where
  "milestone (SetBoundaries _) = True"
| "milestone (SetVisibleArea _) = True"
| "milestone (SetCoordinates _) = True"
| "milestone (Call c) = (c = RefineVisibleArea \<or> c = ApplyTransform \<or> c = FitVisibleArea \<or> c = FitCoordinates)"
| "milestone Warn = False"

text \<open>
  \<open>called_before a b t\<close>: the steps \<open>t\<close> call \<open>a\<close>, and do not call \<open>b\<close> before the first
  call of \<open>a\<close>.
\<close>

fun called_before :: "callee \<Rightarrow> callee \<Rightarrow> step list \<Rightarrow> bool" where
  "called_before a b [] = False"
| "called_before a b (x # xs) =
     (if x = Call a then True else if x = Call b then False else called_before a b xs)"

section \<open>A sample configuration\<close>

text \<open>
  A 1000 x 800 image in a 500 x 400 container, with simple algorithms, to run the model
  on: the boundaries are the size of the container, the default visible area and the default
  size are the whole image, the restrictions are the bounds of the image.
\<close>

definition image_bounds :: "size \<Rightarrow> limits" where
  "image_bounds im =
     \<lparr>left_bound = Num 0, top_bound = Num 0, right_bound = width im, bottom_bound = height im\<rparr>"

definition element_size :: "element \<Rightarrow> size" where
  "element_size el = (case el of Element w h \<Rightarrow> \<lparr>width = w, height = h\<rparr>)"

definition whole_image :: "size \<Rightarrow> rect" where
  "whole_image im = \<lparr>width = width im, height = height im, left = Num 0, top = Num 0\<rparr>"

fun apply_transforms :: "transform list \<Rightarrow> rect \<Rightarrow> rect" where
  "apply_transforms [] c = c"
| "apply_transforms (Static r # ts) c = apply_transforms ts r"
| "apply_transforms (Dynamic f # ts) c = apply_transforms ts (f c)"

definition sample_algorithms :: algorithms where
  "sample_algorithms =
     \<lparr>moveAlgorithm = (\<lambda>p. coordinates_param p),
      resizeAlgorithm = (\<lambda>p. coordinates_param p),
      initStretcher = (\<lambda>el im. el),
      fitCoordinates = (\<lambda>va c ar pr sr. c),
      fitVisibleArea = (\<lambda>im b va c ar. va),
      defaultVisibleArea = IsFunction (\<lambda>(im, b, c, ar). Obj (whole_image im)),
      defaultSize = IsFunction (\<lambda>(b, im, ar, sr, va). whole_image im),
      defaultPosition = IsFunction (\<lambda>(c, im, va). c\<lparr>left := Num 0, top := Num 0\<rparr>),
      defaultBoundaries = BoundariesString ''fit'',
      areaRestrictionsAlgorithm = (\<lambda>im r. image_bounds im),
      sizeRestrictionsAlgorithm = (\<lambda>im sr. sr),
      positionRestrictionsAlgorithm = (\<lambda>im r va. image_bounds im),
      restrictions = None,
      fillBoundaries = (\<lambda>el im. element_size el),
      fitBoundaries = (\<lambda>el im. element_size el),
      limitBy = (\<lambda>l va. l),
      limitSizeRestrictions = (\<lambda>sr va. sr),
      parseNumber = (\<lambda>v. case v of NumberProp n \<Rightarrow> n | _ \<Rightarrow> NaN),
      DEFAULT_COORDINATES = \<lparr>width = Num 0, height = Num 0, left = Num 0, top = Num 0\<rparr>,
      algorithms_limitBy = (\<lambda>l va. l),
      algorithms_refineSizeRestrictions = (\<lambda>sr im b pr r. sr),
      algorithms_refineVisibleArea = (\<lambda>va b ar. va),
      algorithms_applyTransform =
        (\<lambda>c t sr pr ar im. case t of Single x \<Rightarrow> apply_transforms [x] c
                                 | Many xs \<Rightarrow> apply_transforms xs c),
      algorithms_roundCoordinates = (\<lambda>p. coordinates_param p),
      algorithms_autoZoom = (\<lambda>p. visibleArea_param p),
      algorithms_normalizeEvent = (\<lambda>p. event_param p),
      algorithms_manipulateImage = (\<lambda>p. (visibleArea_param p, coordinates_param p))\<rparr>"

definition sample_cropper :: cropper where
  "sample_cropper =
     \<lparr>src = Some ''image.jpg'',
      minWidth_prop = NotGiven, minHeight_prop = NotGiven,
      maxWidth_prop = NotGiven, maxHeight_prop = NotGiven,
      canvas = True, imageRestriction = ''area'', roundResult = True,
      priority = ''coordinates'',
      stencilProps =
        \<lparr>aspectRatio = Undefined, minAspectRatio = Undefined, maxAspectRatio = Undefined\<rparr>,
      imageLoaded = True,
      imageSize = \<lparr>width = Num 1000, height = Num 800\<rparr>,
      boundaries = \<lparr>width = Num 500, height = Num 400\<rparr>,
      visibleArea = Obj \<lparr>width = Num 1000, height = Num 800, left = Num 0, top = Num 0\<rparr>,
      coordinates = \<lparr>width = Num 300, height = Num 200, left = Num 100, top = Num 100\<rparr>,
      delayedTransforms = None,
      image_ref = True,
      cropper_ref = Element (Num 500) (Num 400),
      stencil_aspectRatios = None,
      settings_resize_stencil = False,
      NODE_ENV = ''production''\<rparr>"

text \<open>
  A second set of sample algorithms, which do look at their arguments. The stretcher gives
  an element without a height the height that the ratio of the image asks for;
  \<open>fitBoundaries\<close> fits the image into the element, keeping its ratio; \<open>fitVisibleArea\<close>
  keeps the width of the visible area and gives it the ratio of the boundaries;
  \<open>limitBy\<close> intersects limits with the edges of the visible area and
  \<open>limitSizeRestrictions\<close> caps the size restrictions by its size; \<open>fitCoordinates\<close>
  clamps the size, then the position, into the restrictions so limited; the default size is
  the size of the image and the default position its top left corner.
\<close>

definition limit_by :: "limits \<Rightarrow> rect ref \<Rightarrow> limits" where
  "limit_by l va =
     (case va of
        Obj v \<Rightarrow>
          \<lparr>left_bound = (if left_bound l = Undefined then left v else Math_max (left_bound l) (left v)),
           top_bound = (if top_bound l = Undefined then top v else Math_max (top_bound l) (top v)),
           right_bound =
             (if right_bound l = Undefined then js_add (left v) (width v)
              else Math_min (right_bound l) (js_add (left v) (width v))),
           bottom_bound =
             (if bottom_bound l = Undefined then js_add (top v) (height v)
              else Math_min (bottom_bound l) (js_add (top v) (height v)))\<rparr>
      | _ \<Rightarrow> l)"

definition limit_size :: "size_restrictions \<Rightarrow> rect ref \<Rightarrow> size_restrictions" where
  "limit_size sr va =
     (case va of
        Obj v \<Rightarrow>
          \<lparr>minWidth = Math_min (width v) (minWidth sr),
           minHeight = Math_min (height v) (minHeight sr),
           maxWidth = Math_min (width v) (maxWidth sr),
           maxHeight = Math_min (height v) (maxHeight sr)\<rparr>
      | _ \<Rightarrow> sr)"

definition stretched :: "element \<Rightarrow> size \<Rightarrow> element" where
  "stretched el im =
     (case el of Element w h \<Rightarrow> Element w (js_or h (js_div (js_mul w (height im)) (width im))))"

definition fitted_in :: "element \<Rightarrow> size \<Rightarrow> size" where
  "fitted_in el im =
     (case el of Element w h \<Rightarrow>
        if js_gt (js_div w h) (js_div (width im) (height im))
        then \<lparr>width = js_div (js_mul h (width im)) (height im), height = h\<rparr>
        else \<lparr>width = w, height = js_div (js_mul w (height im)) (width im)\<rparr>)"

definition fitting_algorithms :: algorithms where
  "fitting_algorithms =
     sample_algorithms
       \<lparr>initStretcher := stretched,
        fitCoordinates :=
          (\<lambda>va c ar pr sr.
             let d = fit_size \<lparr>width = width c, height = height c\<rparr> (limit_size sr va) ar
             in fit_position (c\<lparr>width := width d, height := height d\<rparr>) (limit_by pr va)),
        fitVisibleArea :=
          (\<lambda>im b va c ar.
             case va of
               Obj v \<Rightarrow> Obj (v\<lparr>height := js_div (js_mul (width v) (height b)) (width b)\<rparr>)
             | _ \<Rightarrow> va),
        defaultSize :=
          IsFunction (\<lambda>(b, im, ar, sr, va). empty_object\<lparr>width := width im, height := height im\<rparr>),
        defaultPosition :=
          IsFunction (\<lambda>(c, im, va). empty_object\<lparr>left := Num 0, top := Num 0\<rparr>),
        fitBoundaries := fitted_in,
        limitBy := limit_by,
        limitSizeRestrictions := limit_size,
        algorithms_limitBy := limit_by\<rparr>"

text \<open>The same with \<open>defaultBoundaries\<close> set to \<open>'fill'\<close>.\<close>

definition filling_algorithms :: algorithms where
  "filling_algorithms = fitting_algorithms\<lparr>defaultBoundaries := BoundariesString ''fill''\<rparr>"


definition rounding_algorithms :: algorithms where
  "rounding_algorithms = fitting_algorithms\<lparr>algorithms_roundCoordinates := roundCoordinates\<rparr>"

text \<open>
  The sample component, with coordinates that reach down to 600, after its container has
  changed: the boundaries are still 500 x 400 and the element is \<open>el\<close>.
\<close>

definition resized_cropper :: "element \<Rightarrow> cropper" where
  "resized_cropper el =
     sample_cropper
       \<lparr>coordinates := \<lparr>width = Num 300, height = Num 200, left = Num 100, top = Num 400\<rparr>,
        cropper_ref := el\<rparr>"


text \<open>
  The sample component with a minimum and a maximum width of 99.5 and coordinates of that
  width; the sample component zoomed on a visible area of 100 x 100, with a minimum width
  of 50 and coordinates on half and quarter pixels that reach the right and the bottom edge
  of the visible area.
\<close>

definition exact_width_cropper :: cropper where
  "exact_width_cropper =
     sample_cropper
       \<lparr>minWidth_prop := NumberProp (Num (199 / 2)),
        maxWidth_prop := NumberProp (Num (199 / 2)),
        coordinates := \<lparr>width = Num (199 / 2), height = Num 200, left = Num 100, top = Num 100\<rparr>\<rparr>"


section \<open>Properties of the numeric operations\<close>

lemma ToNumber_idem [simp]: "ToNumber (ToNumber a) = ToNumber a"
  by (cases a) simp_all

lemma Math_max_ge:
  "ToNumber a \<noteq> NaN \<Longrightarrow> ToNumber m \<noteq> NaN \<Longrightarrow>
   js_le m (Math_max a m) \<and> js_le a (Math_max a m)"
  by (cases a; cases m) (auto simp add: js_le_def le_num_def Math_max_def max_num_def)

lemma Math_max_keeps: "js_lt m a \<Longrightarrow> Math_max a m = ToNumber a"
  by (cases a; cases m) (auto simp add: js_lt_def Math_max_def max_num_def)

lemma integralE:
  assumes "integral v"
  obtains k :: int where "v = Num (of_int k)"
  using assms by (cases v) (auto intro: sym)






section \<open>Properties of the component\<close>

subsection \<open>Steps and fields under updates\<close>

lemma after_simps [simp]:
  "fst (after t r) = fst r"
  "snd (after t r) = t @ snd r"
  by (simp_all add: after_def)

lemma and_then_simps [simp]:
  "fst (and_then r f) = fst (f (fst r))"
  "snd (and_then r f) = snd r @ snd (f (fst r))"
  by (simp_all add: and_then_def)

lemma onChangeCoordinates_simps [simp]:
  "fst (onChangeCoordinates c s) = s\<lparr>coordinates := c\<rparr>"
  "snd (onChangeCoordinates c s) = [SetCoordinates c]"
  by (simp_all add: onChangeCoordinates_def)

lemma set_visibleArea_simps [simp]:
  "fst (set_visibleArea v s) = s\<lparr>visibleArea := v\<rparr>"
  "snd (set_visibleArea v s) = [SetVisibleArea v]"
  by (simp_all add: set_visibleArea_def)

lemma getters_coordinates [simp]:
  "initialized (s\<lparr>coordinates := c\<rparr>) = initialized s"
  "coefficient (s\<lparr>coordinates := c\<rparr>) = coefficient s"
  "getAspectRatio (s\<lparr>coordinates := c\<rparr>) = getAspectRatio s"
  "areaRestrictions env (s\<lparr>coordinates := c\<rparr>) = areaRestrictions env s"
  "positionRestrictions env (s\<lparr>coordinates := c\<rparr>) = positionRestrictions env s"
  "sizeRestrictions env (s\<lparr>coordinates := c\<rparr>) = sizeRestrictions env s"
  by (simp_all add: initialized_def coefficient_def getAspectRatio_def
      areaRestrictions_def areaRestrictions_eval_def
      positionRestrictions_def positionRestrictions_eval_def
      sizeRestrictions_def sizeRestrictions_eval_def
      split: ref.splits option.splits)

lemma getters_visibleArea [simp]:
  "getAspectRatio (s\<lparr>visibleArea := v\<rparr>) = getAspectRatio s"
  "areaRestrictions env (s\<lparr>visibleArea := v\<rparr>) = areaRestrictions env s"
  by (simp_all add: getAspectRatio_def areaRestrictions_def areaRestrictions_eval_def
      split: option.splits)

lemma getters_boundaries [simp]:
  "getAspectRatio (s\<lparr>boundaries := b\<rparr>) = getAspectRatio s"
  "areaRestrictions env (s\<lparr>boundaries := b\<rparr>) = areaRestrictions env s"
  "initialized (s\<lparr>boundaries := b\<rparr>) = initialized s"
  "positionRestrictions env (s\<lparr>boundaries := b\<rparr>) = positionRestrictions env s"
  by (simp_all add: getAspectRatio_def areaRestrictions_def areaRestrictions_eval_def
      initialized_def positionRestrictions_def positionRestrictions_eval_def
      split: option.splits)

lemma getters_cropper_ref [simp]:
  "initialized (s\<lparr>cropper_ref := r\<rparr>) = initialized s"
  "coefficient (s\<lparr>cropper_ref := r\<rparr>) = coefficient s"
  "getAspectRatio (s\<lparr>cropper_ref := r\<rparr>) = getAspectRatio s"
  "areaRestrictions env (s\<lparr>cropper_ref := r\<rparr>) = areaRestrictions env s"
  "positionRestrictions env (s\<lparr>cropper_ref := r\<rparr>) = positionRestrictions env s"
  "sizeRestrictions env (s\<lparr>cropper_ref := r\<rparr>) = sizeRestrictions env s"
  by (simp_all add: initialized_def coefficient_def getAspectRatio_def
      areaRestrictions_def areaRestrictions_eval_def
      positionRestrictions_def positionRestrictions_eval_def
      sizeRestrictions_def sizeRestrictions_eval_def
      split: ref.splits option.splits)

subsection \<open>Boundaries\<close>

lemma updateBoundaries_simps:
  "fst (updateBoundaries env s) =
     (if \<not> truthy (width (computed_boundaries env s)) \<or>
         \<not> truthy (height (computed_boundaries env s))
      then Inl cannot_fit else Inr ())"
  "fst (snd (updateBoundaries env s)) =
     s\<lparr>cropper_ref := initStretcher env (cropper_ref s) (imageSize s),
       boundaries := computed_boundaries env s\<rparr>"
  "snd (snd (updateBoundaries env s)) =
     [Call InitStretcher, Call DefaultBoundaries, SetBoundaries (computed_boundaries env s)]"
  by (simp_all add: updateBoundaries_def Let_def)

lemma computed_boundaries_sample:
  "computed_boundaries sample_algorithms (sample_cropper\<lparr>cropper_ref := Element w h\<rparr>) =
     \<lparr>width = w, height = h\<rparr>"
  by (simp add: computed_boundaries_def sample_algorithms_def sample_cropper_def element_size_def)

text \<open>
  C1. When the boundaries that \<open>updateBoundaries\<close> computes have a width or a height that is
  zero or unset (falsy), the promise is rejected with the error "It's impossible to fit the
  cropper in the current container", an error value that holds its message and nothing
  else; the handlers of \<open>reset\<close> and \<open>refresh\<close> catch it and leave \<open>visibleArea\<close> null. When
  the boundaries have a positive width and a positive height, no error is raised: the
  promise is fulfilled and \<open>reset\<close> and \<open>refresh\<close> run their success continuation.
\<close>

theorem updateBoundaries_cannot_fit:
  "(\<not> truthy (width (computed_boundaries env s)) \<or>
    \<not> truthy (height (computed_boundaries env s)) \<longrightarrow>
      fst (updateBoundaries env s) =
        Inl (Error ''It's impossible to fit the cropper in the current container'') \<and>
      visibleArea (fst (reset env s)) = NullRef \<and>
      (truthy_src (src s) \<and> image_ref s \<longrightarrow> visibleArea (fst (refresh env s)) = NullRef)) \<and>
   (\<forall>w h. computed_boundaries env s = \<lparr>width = Num w, height = Num h\<rparr> \<and> 0 < w \<and> 0 < h \<longrightarrow>
      fst (updateBoundaries env s) = Inr () \<and>
      reset env s = and_then (snd (updateBoundaries env s)) (resetVisibleArea_then env) \<and>
      (truthy_src (src s) \<and> image_ref s \<and> initialized s \<longrightarrow>
         refresh env s = and_then (snd (updateBoundaries env s)) (updateVisibleArea_then env)))"
proof (intro conjI impI allI)
  assume "\<not> truthy (width (computed_boundaries env s)) \<or>
          \<not> truthy (height (computed_boundaries env s))"
  then have e: "fst (updateBoundaries env s) = Inl cannot_fit"
    by (simp add: updateBoundaries_simps)
  then show "fst (updateBoundaries env s) =
        Inl (Error ''It's impossible to fit the cropper in the current container'')"
    by (simp add: cannot_fit_def)
  from e show "visibleArea (fst (reset env s)) = NullRef"
    by (simp add: reset_def resetVisibleArea_def)
  assume "truthy_src (src s) \<and> image_ref s"
  with e show "visibleArea (fst (refresh env s)) = NullRef"
    by (simp add: refresh_def reset_def resetVisibleArea_def updateVisibleArea_def)
next
  fix w h :: real
  assume "computed_boundaries env s = \<lparr>width = Num w, height = Num h\<rparr> \<and> 0 < w \<and> 0 < h"
  then show ok: "fst (updateBoundaries env s) = Inr ()"
    by (simp add: updateBoundaries_simps)
  then show "reset env s = and_then (snd (updateBoundaries env s)) (resetVisibleArea_then env)"
    by (simp add: reset_def resetVisibleArea_def)
  assume "truthy_src (src s) \<and> image_ref s \<and> initialized s"
  with ok show "refresh env s = and_then (snd (updateBoundaries env s)) (updateVisibleArea_then env)"
    by (simp add: refresh_def updateVisibleArea_def)
qed

text \<open>
  The sample component in a container of width 0: the error is raised and \<open>visibleArea\<close>
  ends null after \<open>reset\<close> and after \<open>refresh\<close>. In its 500 x 400 container: no error.
\<close>

theorem updateBoundaries_cannot_fit_witness:
  "\<not> truthy (width (computed_boundaries sample_algorithms
       (sample_cropper\<lparr>cropper_ref := Element (Num 0) (Num 400)\<rparr>))) \<and>
   fst (updateBoundaries sample_algorithms
       (sample_cropper\<lparr>cropper_ref := Element (Num 0) (Num 400)\<rparr>)) =
     Inl (Error ''It's impossible to fit the cropper in the current container'') \<and>
   visibleArea (fst (reset sample_algorithms
       (sample_cropper\<lparr>cropper_ref := Element (Num 0) (Num 400)\<rparr>))) = NullRef \<and>
   visibleArea (fst (refresh sample_algorithms
       (sample_cropper\<lparr>cropper_ref := Element (Num 0) (Num 400)\<rparr>))) = NullRef \<and>
   computed_boundaries sample_algorithms
       (sample_cropper\<lparr>cropper_ref := Element (Num 500) (Num 400)\<rparr>) =
     \<lparr>width = Num 500, height = Num 400\<rparr> \<and>
   fst (updateBoundaries sample_algorithms
       (sample_cropper\<lparr>cropper_ref := Element (Num 500) (Num 400)\<rparr>)) = Inr ()"
proof -
  let ?z = "sample_cropper\<lparr>cropper_ref := Element (Num 0) (Num 400)\<rparr>"
  let ?p = "sample_cropper\<lparr>cropper_ref := Element (Num 500) (Num 400)\<rparr>"
  have z: "\<not> truthy (width (computed_boundaries sample_algorithms ?z))"
    by (simp add: computed_boundaries_sample)
  have m: "truthy_src (src ?z) \<and> image_ref ?z"
    by (simp add: sample_cropper_def truthy_src_def)
  have p: "computed_boundaries sample_algorithms ?p = \<lparr>width = Num 500, height = Num 400\<rparr>"
    by (simp add: computed_boundaries_sample)
  have q: "(0::real) < 500 \<and> (0::real) < 400"
    by simp
  from updateBoundaries_cannot_fit [of sample_algorithms ?z] z m
  have "fst (updateBoundaries sample_algorithms ?z) =
          Inl (Error ''It's impossible to fit the cropper in the current container'') \<and>
        visibleArea (fst (reset sample_algorithms ?z)) = NullRef \<and>
        visibleArea (fst (refresh sample_algorithms ?z)) = NullRef"
    by blast
  moreover from updateBoundaries_cannot_fit [of sample_algorithms ?p] p q
  have "fst (updateBoundaries sample_algorithms ?p) = Inr ()"
    by blast
  ultimately show ?thesis
    using z p by blast
qed

subsection \<open>The scale coefficient\<close>

text \<open>
  C4. In every state in which \<open>visibleArea\<close> is set, the coefficient is
  \<open>visibleArea.width / boundaries.width\<close>, the division being that of the language; for a
  finite width over a finite width other than zero it is their quotient.
\<close>

theorem coefficient_is_ratio:
  "visibleArea s = Obj va \<Longrightarrow>
     coefficient s = js_div (width va) (width (boundaries s)) \<and>
     (\<forall>a b. width va = Num a \<and> width (boundaries s) = Num b \<and> b \<noteq> 0 \<longrightarrow>
        coefficient s = Num (a / b))"
  by (simp add: coefficient_def js_div_def)

text \<open>A visible area 1000 wide in boundaries 500 wide: the coefficient is 2.\<close>

theorem coefficient_is_ratio_witness:
  "visibleArea sample_cropper = Obj (whole_image (imageSize sample_cropper)) \<and>
   coefficient sample_cropper = Num 2"
proof -
  have h: "visibleArea sample_cropper = Obj (whole_image (imageSize sample_cropper))"
    by (simp add: sample_cropper_def whole_image_def)
  have "width (whole_image (imageSize sample_cropper)) = Num 1000"
    and "width (boundaries sample_cropper) = Num 500"
    by (simp_all add: sample_cropper_def whole_image_def)
  with coefficient_is_ratio [OF h] have "coefficient sample_cropper = Num (1000 / 500)"
    by (simp add: js_div_def)
  with h show ?thesis by simp
qed

subsection \<open>Size restrictions without boundaries\<close>

text \<open>
  C10. In every state in which \<open>boundaries.width\<close> or \<open>boundaries.height\<close> is zero or unset
  (falsy), the computed size restrictions are all zero, and evaluating the property calls
  neither the size-restriction algorithm nor the refinement algorithm (it calls nothing).
\<close>

theorem sizeRestrictions_zero_boundaries:
  "\<not> truthy (width (boundaries s)) \<or> \<not> truthy (height (boundaries s)) \<Longrightarrow>
     sizeRestrictions_eval env s =
       (\<lparr>minWidth = Num 0, minHeight = Num 0, maxWidth = Num 0, maxHeight = Num 0\<rparr>, [])"
  by (auto simp add: sizeRestrictions_eval_def)

text \<open>The sample component before its boundaries are set (\<open>width\<close> and \<open>height\<close> null).\<close>

theorem sizeRestrictions_zero_boundaries_witness:
  "\<not> truthy (width (boundaries (sample_cropper\<lparr>boundaries := \<lparr>width = Null, height = Null\<rparr>\<rparr>))) \<and>
   sizeRestrictions_eval sample_algorithms
       (sample_cropper\<lparr>boundaries := \<lparr>width = Null, height = Null\<rparr>\<rparr>) =
     (\<lparr>minWidth = Num 0, minHeight = Num 0, maxWidth = Num 0, maxHeight = Num 0\<rparr>, [])"
proof -
  have h: "\<not> truthy (width (boundaries (sample_cropper\<lparr>boundaries := \<lparr>width = Null, height = Null\<rparr>\<rparr>)))"
    by simp
  from sizeRestrictions_zero_boundaries [OF disjI1, OF h] h show ?thesis by blast
qed

subsection \<open>Zoom\<close>

text \<open>
  C5. The public method \<open>zoom(factor, center)\<close> hands to \<open>onManipulateImage\<close> a
  manipulate-image event whose move part is empty and whose scale part has the factor
  \<open>1 / factor\<close> and the given center; that event, normalised, is the event that
  \<open>algorithms.manipulateImage\<close> receives. A requested zoom above 1 gives an event factor
  below 1.
\<close>

theorem zoom_event_factor:
  "zoom env f c s = onManipulateImage env (zoom_event f c) s \<and>
   event_param (onManipulateImage_params env (zoom_event f c) s) =
     algorithms_normalizeEvent env (with_event (getPublicProperties env s) (zoom_event f c)) \<and>
   factor (event_scale (zoom_event f c)) = js_div (Num 1) f \<and>
   center (event_scale (zoom_event f c)) = c \<and>
   event_move (zoom_event f c) = empty_object \<and>
   (\<forall>r. f = Num r \<and> 1 < r \<longrightarrow>
      factor (event_scale (zoom_event f c)) = Num (1 / r) \<and> 0 < 1 / r \<and> 1 / r < 1)"
  by (simp add: zoom_def zoom_event_def js_div_def onManipulateImage_params_def with_event_def
      with_settings_def public_properties.defs event_params.defs manipulate_params.defs)

text \<open>A zoom by 2 about the point (500, 400): the event factor is 1/2.\<close>

theorem zoom_event_factor_witness:
  "(1::real) < 2 \<and>
   zoom_event (Num 2) (Obj (empty_object\<lparr>left := Num 500, top := Num 400\<rparr>)) =
     ManipulateImageEvent empty_object
       \<lparr>factor = Num (1 / 2), center = Obj (empty_object\<lparr>left := Num 500, top := Num 400\<rparr>)\<rparr>"
proof -
  let ?c = "Obj (empty_object\<lparr>left := Num 500, top := Num 400\<rparr>)"
  have h: "(1::real) < 2" by simp
  from zoom_event_factor [of sample_algorithms "Num 2" ?c sample_cropper] h
  have "factor (event_scale (zoom_event (Num 2) ?c)) = Num (1 / 2)"
    and "center (event_scale (zoom_event (Num 2) ?c)) = ?c"
    and "event_move (zoom_event (Num 2) ?c) = empty_object"
    by blast+
  then have "zoom_event (Num 2) ?c =
      ManipulateImageEvent empty_object \<lparr>factor = Num (1 / 2), center = ?c\<rparr>"
    by (cases "zoom_event (Num 2) ?c") (simp_all add: zoom_event_def)
  with h show ?thesis by blast
qed

subsection \<open>The minimum size of a resize\<close>

lemma sizeRestrictions_param_onResize:
  "sizeRestrictions_param (onResize_params env e s) =
     (sizeRestrictions env s)
       \<lparr>minWidth := Math_max (minWidth (sizeRestrictions env s)) (minimumSize s),
        minHeight := Math_max (minHeight (sizeRestrictions env s)) (minimumSize s)\<rparr>"
  by (simp add: onResize_params_def with_event_def Let_def public_properties.defs
      event_params.defs)

lemma coordinates_onResize:
  "coordinates (fst (onResize env e s)) = resizeAlgorithm env (onResize_params env e s)"
  by (simp add: onResize_def)

text \<open>
  C6. The size restrictions that \<open>onResize\<close> passes to the resize algorithm are those of
  the component with \<open>minWidth\<close> and \<open>minHeight\<close> replaced by their maximum with
  \<open>min(coordinates.width, coordinates.height, 20 * coefficient)\<close>; the maxima are
  unchanged. So, the quantities being numbers, the passed minima are at least that heuristic
  value and at least the configured minima, and a configured minimum above the heuristic
  value is passed as it is.
\<close>

theorem onResize_minimum_size:
  "coordinates (fst (onResize env e s)) = resizeAlgorithm env (onResize_params env e s) \<and>
   minWidth (sizeRestrictions_param (onResize_params env e s)) =
     Math_max (minWidth (sizeRestrictions env s)) (minimumSize s) \<and>
   minHeight (sizeRestrictions_param (onResize_params env e s)) =
     Math_max (minHeight (sizeRestrictions env s)) (minimumSize s) \<and>
   maxWidth (sizeRestrictions_param (onResize_params env e s)) = maxWidth (sizeRestrictions env s) \<and>
   maxHeight (sizeRestrictions_param (onResize_params env e s)) = maxHeight (sizeRestrictions env s) \<and>
   minimumSize s =
     Math_min3 (width (coordinates s)) (height (coordinates s)) (js_mul (Num 20) (coefficient s)) \<and>
   (ToNumber (minimumSize s) \<noteq> NaN \<longrightarrow>
      (ToNumber (minWidth (sizeRestrictions env s)) \<noteq> NaN \<longrightarrow>
         js_le (minimumSize s) (minWidth (sizeRestrictions_param (onResize_params env e s))) \<and>
         js_le (minWidth (sizeRestrictions env s))
           (minWidth (sizeRestrictions_param (onResize_params env e s)))) \<and>
      (ToNumber (minHeight (sizeRestrictions env s)) \<noteq> NaN \<longrightarrow>
         js_le (minimumSize s) (minHeight (sizeRestrictions_param (onResize_params env e s))) \<and>
         js_le (minHeight (sizeRestrictions env s))
           (minHeight (sizeRestrictions_param (onResize_params env e s))))) \<and>
   (js_lt (minimumSize s) (minWidth (sizeRestrictions env s)) \<longrightarrow>
      minWidth (sizeRestrictions_param (onResize_params env e s)) =
        ToNumber (minWidth (sizeRestrictions env s))) \<and>
   (js_lt (minimumSize s) (minHeight (sizeRestrictions env s)) \<longrightarrow>
      minHeight (sizeRestrictions_param (onResize_params env e s)) =
        ToNumber (minHeight (sizeRestrictions env s)))"
  by (simp add: sizeRestrictions_param_onResize coordinates_onResize Math_max_ge Math_max_keeps
      minimumSize_def)

lemma sizeRestrictions_sample:
  "sizeRestrictions sample_algorithms
     (sample_cropper\<lparr>minWidth_prop := NumberProp a, minHeight_prop := NumberProp b\<rparr>) =
     \<lparr>minWidth = a, minHeight = b, maxWidth = PInf, maxHeight = PInf\<rparr>"
  by (simp add: sizeRestrictions_def sizeRestrictions_eval_def sample_algorithms_def
      sample_cropper_def Let_def)

lemma minimumSize_sample:
  "minimumSize (sample_cropper\<lparr>minWidth_prop := a, minHeight_prop := b\<rparr>) = Num 40"
  by (simp add: minimumSize_def coefficient_def sample_cropper_def js_div_def js_mul_def
      Math_min3_def min_num_def)

text \<open>
  The sample component (coefficient 2, so the heuristic value is 40) with a minimum width
  50 and a minimum height 10: the resize algorithm gets the minimum width 50 and the minimum
  height 40.
\<close>

theorem onResize_minimum_size_witness:
  "ToNumber (minimumSize (sample_cropper\<lparr>minWidth_prop := NumberProp (Num 50),
      minHeight_prop := NumberProp (Num 10)\<rparr>)) \<noteq> NaN \<and>
   js_lt (minimumSize (sample_cropper\<lparr>minWidth_prop := NumberProp (Num 50),
      minHeight_prop := NumberProp (Num 10)\<rparr>)) (Num 50) \<and>
   minimumSize (sample_cropper\<lparr>minWidth_prop := NumberProp (Num 50),
      minHeight_prop := NumberProp (Num 10)\<rparr>) = Num 40 \<and>
   js_le (Num 40) (minHeight (sizeRestrictions_param
     (onResize_params sample_algorithms (ResizeEvent empty_limits)
       (sample_cropper\<lparr>minWidth_prop := NumberProp (Num 50),
          minHeight_prop := NumberProp (Num 10)\<rparr>)))) \<and>
   sizeRestrictions_param (onResize_params sample_algorithms (ResizeEvent empty_limits)
       (sample_cropper\<lparr>minWidth_prop := NumberProp (Num 50),
          minHeight_prop := NumberProp (Num 10)\<rparr>)) =
     \<lparr>minWidth = Num 50, minHeight = Num 40, maxWidth = PInf, maxHeight = PInf\<rparr>"
proof -
  let ?s = "sample_cropper\<lparr>minWidth_prop := NumberProp (Num 50),
              minHeight_prop := NumberProp (Num 10)\<rparr>"
  let ?p = "sizeRestrictions_param (onResize_params sample_algorithms (ResizeEvent empty_limits) ?s)"
  have m: "minimumSize ?s = Num 40"
    by (rule minimumSize_sample)
  have sr: "sizeRestrictions sample_algorithms ?s =
      \<lparr>minWidth = Num 50, minHeight = Num 10, maxWidth = PInf, maxHeight = PInf\<rparr>"
    by (rule sizeRestrictions_sample)
  have n: "ToNumber (minimumSize ?s) \<noteq> NaN"
    by (simp add: m)
  have n': "ToNumber (minHeight (sizeRestrictions sample_algorithms ?s)) \<noteq> NaN"
    by (simp add: sr)
  have l: "js_lt (minimumSize ?s) (minWidth (sizeRestrictions sample_algorithms ?s))"
    by (simp add: m sr js_lt_def)
  note t = onResize_minimum_size [of sample_algorithms "ResizeEvent empty_limits" ?s]
  from t n n' have le: "js_le (minimumSize ?s) (minHeight ?p)"
    by blast
  from t l have w: "minWidth ?p = ToNumber (minWidth (sizeRestrictions sample_algorithms ?s))"
    by blast
  from t have "minHeight ?p = Math_max (Num 10) (Num 40)"
    and "maxWidth ?p = PInf" and "maxHeight ?p = PInf"
    by (simp_all only: sr m size_restrictions.simps)
  with w have "?p = \<lparr>minWidth = Num 50, minHeight = Num 40, maxWidth = PInf, maxHeight = PInf\<rparr>"
    by (cases ?p) (simp add: Math_max_def max_num_def sr)
  with n l le m sr show ?thesis by simp
qed

subsection \<open>Resetting the coordinates\<close>

lemma applyTransform_simps:
  "fst (applyTransform env t False limited s) =
     s\<lparr>coordinates := applyTransform_result env t limited s\<rparr>"
  "snd (applyTransform env t False limited s) =
     (if truthy_ref (visibleArea s) \<and> limited then [Call LimitSizeRestrictions] else []) @
     (if truthy_ref (visibleArea s) then [Call LimitBy] else []) @
     [Call ApplyTransform, SetCoordinates (applyTransform_result env t limited s)]"
  by (simp_all add: applyTransform_def Let_def)

text \<open>The steps of \<open>resetCoordinates\<close> when the image element is mounted.\<close>

lemma resetCoordinates_simps:
  assumes "image_ref s"
  shows "fst (resetCoordinates env s) =
           s\<lparr>coordinates :=
                applyTransform_result env (Many (resetCoordinates_transforms env s)) True s,
             delayedTransforms := None\<rparr>"
    and "snd (resetCoordinates env s) =
           (case defaultSize env of IsFunction f \<Rightarrow> [Call DefaultSize] | IsObject d \<Rightarrow> []) @
           (if NODE_ENV s = ''development'' \<and>
               breaks_size_restrictions (resetCoordinates_defaultSize env s) (sizeRestrictions env s)
            then [Warn] else []) @
           (if truthy_ref (visibleArea s) then [Call LimitSizeRestrictions, Call LimitBy] else []) @
           [Call ApplyTransform,
            SetCoordinates
              (applyTransform_result env (Many (resetCoordinates_transforms env s)) True s)]"
  using assms by (simp_all add: resetCoordinates_def applyTransform_simps)



lemma fit_position_sizes [simp]:
  "width (fit_position c pr) = width c" "height (fit_position c pr) = height c"
  by (simp_all add: fit_position_def)












subsection \<open>Refresh\<close>

lemma updateVisibleArea_then_simps:
  "visibleArea (fst (updateVisibleArea_then env s)) =
     fitVisibleArea env (imageSize s) (boundaries s) (visibleArea s) (coordinates s)
       (areaRestrictions env s)"
  "coordinates (fst (updateVisibleArea_then env s)) =
     fitCoordinates env (visibleArea (fst (updateVisibleArea_then env s))) (coordinates s)
       (getAspectRatio s)
       (positionRestrictions env (fst (updateVisibleArea_then env s)))
       (sizeRestrictions env (fst (updateVisibleArea_then env s)))"
  "snd (updateVisibleArea_then env s) =
     [Call FitVisibleArea, SetVisibleArea (visibleArea (fst (updateVisibleArea_then env s))),
      Call FitCoordinates, SetCoordinates (coordinates (fst (updateVisibleArea_then env s)))]"
  "boundaries (fst (updateVisibleArea_then env s)) = boundaries s"
  by (simp_all add: updateVisibleArea_then_def Let_def)

lemma steps_of_gestures:
  "snd (onMove env e s) =
     [Call LimitBy, Call NormalizeEvent, Call MoveAlgorithm,
      SetCoordinates (coordinates (fst (onMove env e s)))]"
  "snd (onResize env e s) =
     [Call LimitBy, Call NormalizeEvent, Call ResizeAlgorithm,
      SetCoordinates (coordinates (fst (onResize env e s)))]"
  "snd (onManipulateImage env e s) =
     [Call NormalizeEvent, Call ManipulateImage,
      SetVisibleArea (visibleArea (fst (onManipulateImage env e s))),
      SetCoordinates (coordinates (fst (onManipulateImage env e s)))]"
  by (simp_all add: onMove_def onResize_def onManipulateImage_def Let_def)

lemma restrictions_cropper_ref_inside:
  "positionRestrictions env (s\<lparr>cropper_ref := el, boundaries := b, visibleArea := v\<rparr>) =
     positionRestrictions env (s\<lparr>boundaries := b, visibleArea := v\<rparr>)"
  "sizeRestrictions env (s\<lparr>cropper_ref := el, boundaries := b, visibleArea := v\<rparr>) =
     sizeRestrictions env (s\<lparr>boundaries := b, visibleArea := v\<rparr>)"
  by (simp_all add: positionRestrictions_def positionRestrictions_eval_def sizeRestrictions_def
      sizeRestrictions_eval_def initialized_def)

text \<open>
  C8, amended. A refresh of an initialized component that has a source and a mounted image
  first stretches the element and recomputes the boundaries. When their width and height
  are not zero (nor unset), it then calls \<open>fitVisibleArea\<close> with the new boundaries and
  assigns the visible area, and only then calls \<open>fitCoordinates\<close> with the refreshed
  visible area and the restrictions of the refreshed state, and assigns the coordinates.
  When the width or the height of the new boundaries is zero or unset, no fit algorithm is
  called and the visible area becomes null. Without a source or a mounted image the refresh
  does nothing. The handlers of the gestures (\<open>onMove\<close>, \<open>onResize\<close>,
  \<open>onManipulateImage\<close>) call no fit algorithm.
\<close>

theorem refresh_order:
  "(initialized s \<longrightarrow>
      (\<not> (truthy_src (src s) \<and> image_ref s) \<longrightarrow> refresh env s = (s, [])) \<and>
      (truthy_src (src s) \<and> image_ref s \<longrightarrow>
         (let el = initStretcher env (cropper_ref s) (imageSize s);
              b = (case defaultBoundaries env of
                     BoundariesFunction f \<Rightarrow> f el (imageSize s)
                   | BoundariesString str \<Rightarrow>
                       if str = ''fill'' then fillBoundaries env el (imageSize s)
                       else fitBoundaries env el (imageSize s));
              va = fitVisibleArea env (imageSize s) b (visibleArea s) (coordinates s)
                     (areaRestrictions env s);
              c = fitCoordinates env va (coordinates s) (getAspectRatio s)
                    (positionRestrictions env (s\<lparr>boundaries := b, visibleArea := va\<rparr>))
                    (sizeRestrictions env (s\<lparr>boundaries := b, visibleArea := va\<rparr>))
          in (truthy (width b) \<and> truthy (height b) \<longrightarrow>
                refresh env s =
                  (s\<lparr>cropper_ref := el, boundaries := b, visibleArea := va, coordinates := c\<rparr>,
                   [Call InitStretcher, Call DefaultBoundaries, SetBoundaries b,
                    Call FitVisibleArea, SetVisibleArea va,
                    Call FitCoordinates, SetCoordinates c])) \<and>
             (\<not> (truthy (width b) \<and> truthy (height b)) \<longrightarrow>
                refresh env s =
                  (s\<lparr>cropper_ref := el, boundaries := b, visibleArea := NullRef\<rparr>,
                   [Call InitStretcher, Call DefaultBoundaries, SetBoundaries b,
                    SetVisibleArea NullRef]))))) \<and>
   snd (onMove env e s) =
     [Call LimitBy, Call NormalizeEvent, Call MoveAlgorithm,
      SetCoordinates (coordinates (fst (onMove env e s)))] \<and>
   snd (onResize env e s) =
     [Call LimitBy, Call NormalizeEvent, Call ResizeAlgorithm,
      SetCoordinates (coordinates (fst (onResize env e s)))] \<and>
   snd (onManipulateImage env e s) =
     [Call NormalizeEvent, Call ManipulateImage,
      SetVisibleArea (visibleArea (fst (onManipulateImage env e s))),
      SetCoordinates (coordinates (fst (onManipulateImage env e s)))]"
proof -
  let ?el = "initStretcher env (cropper_ref s) (imageSize s)"
  let ?b = "case defaultBoundaries env of
              BoundariesFunction f \<Rightarrow> f ?el (imageSize s)
            | BoundariesString str \<Rightarrow>
                if str = ''fill'' then fillBoundaries env ?el (imageSize s)
                else fitBoundaries env ?el (imageSize s)"
  let ?va = "fitVisibleArea env (imageSize s) ?b (visibleArea s) (coordinates s)
               (areaRestrictions env s)"
  let ?c = "fitCoordinates env ?va (coordinates s) (getAspectRatio s)
              (positionRestrictions env (s\<lparr>boundaries := ?b, visibleArea := ?va\<rparr>))
              (sizeRestrictions env (s\<lparr>boundaries := ?b, visibleArea := ?va\<rparr>))"
  have b: "computed_boundaries env s = ?b"
    by (simp add: computed_boundaries_def Let_def)
  have u: "snd (updateBoundaries env s) =
      (s\<lparr>cropper_ref := ?el, boundaries := ?b\<rparr>,
       [Call InitStretcher, Call DefaultBoundaries, SetBoundaries ?b])"
    by (simp add: prod_eq_iff updateBoundaries_simps b)
  have 1: "refresh env s = (s, [])" if "\<not> (truthy_src (src s) \<and> image_ref s)"
    using that by (auto simp add: refresh_def)
  have 2: "refresh env s =
      (s\<lparr>cropper_ref := ?el, boundaries := ?b, visibleArea := ?va, coordinates := ?c\<rparr>,
       [Call InitStretcher, Call DefaultBoundaries, SetBoundaries ?b,
        Call FitVisibleArea, SetVisibleArea ?va, Call FitCoordinates, SetCoordinates ?c])"
    if "initialized s" "truthy_src (src s) \<and> image_ref s" "truthy (width ?b) \<and> truthy (height ?b)"
  proof -
    from that have "refresh env s =
        and_then (snd (updateBoundaries env s)) (updateVisibleArea_then env)"
      by (simp add: refresh_def updateVisibleArea_def updateBoundaries_simps b)
    then show ?thesis
      unfolding u
      by (simp add: prod_eq_iff updateVisibleArea_then_def Let_def restrictions_cropper_ref_inside)
  qed
  have 3: "refresh env s =
      (s\<lparr>cropper_ref := ?el, boundaries := ?b, visibleArea := NullRef\<rparr>,
       [Call InitStretcher, Call DefaultBoundaries, SetBoundaries ?b, SetVisibleArea NullRef])"
    if "initialized s" "truthy_src (src s) \<and> image_ref s"
      "\<not> (truthy (width ?b) \<and> truthy (height ?b))"
  proof -
    from that have "refresh env s =
        and_then (snd (updateBoundaries env s)) (set_visibleArea NullRef)"
      by (auto simp add: refresh_def updateVisibleArea_def updateBoundaries_simps b)
    then show ?thesis
      unfolding u by (simp add: prod_eq_iff)
  qed
  from 1 2 3 show ?thesis
    unfolding Let_def by (intro conjI impI steps_of_gestures) blast+
qed


text \<open>
  C8 as stated fails in a container without width: the initialized sample component, its
  element 0 x 400, refreshes without calling \<open>fitVisibleArea\<close> or \<open>fitCoordinates\<close>, and
  its visible area becomes null.
\<close>

theorem refresh_order_counterexample:
  "initialized (sample_cropper\<lparr>cropper_ref := Element (Num 0) (Num 400)\<rparr>) \<and>
   truthy_src (src (sample_cropper\<lparr>cropper_ref := Element (Num 0) (Num 400)\<rparr>)) \<and>
   image_ref (sample_cropper\<lparr>cropper_ref := Element (Num 0) (Num 400)\<rparr>) \<and>
   snd (refresh sample_algorithms (sample_cropper\<lparr>cropper_ref := Element (Num 0) (Num 400)\<rparr>)) =
     [Call InitStretcher, Call DefaultBoundaries,
      SetBoundaries \<lparr>width = Num 0, height = Num 400\<rparr>, SetVisibleArea NullRef] \<and>
   Call FitVisibleArea \<notin>
     set (snd (refresh sample_algorithms (sample_cropper\<lparr>cropper_ref := Element (Num 0) (Num 400)\<rparr>))) \<and>
   Call FitCoordinates \<notin>
     set (snd (refresh sample_algorithms (sample_cropper\<lparr>cropper_ref := Element (Num 0) (Num 400)\<rparr>))) \<and>
   visibleArea (fst (refresh sample_algorithms (sample_cropper\<lparr>cropper_ref := Element (Num 0) (Num 400)\<rparr>))) =
     NullRef"
proof -
  let ?s = "sample_cropper\<lparr>cropper_ref := Element (Num 0) (Num 400)\<rparr>"
  have i: "initialized ?s" "truthy_src (src ?s)" "image_ref ?s"
    by (simp_all add: initialized_def sample_cropper_def truthy_src_def)
  have b: "computed_boundaries sample_algorithms ?s = \<lparr>width = Num 0, height = Num 400\<rparr>"
    by (rule computed_boundaries_sample)
  from i have "refresh sample_algorithms ?s =
      and_then (snd (updateBoundaries sample_algorithms ?s)) (set_visibleArea NullRef)"
    by (simp add: refresh_def updateVisibleArea_def updateBoundaries_simps b)
  then have "snd (refresh sample_algorithms ?s) =
      [Call InitStretcher, Call DefaultBoundaries,
       SetBoundaries \<lparr>width = Num 0, height = Num 400\<rparr>, SetVisibleArea NullRef]"
    and "visibleArea (fst (refresh sample_algorithms ?s)) = NullRef"
    by (simp_all add: updateBoundaries_simps b)
  with i show ?thesis
    by simp
qed

lemma resized_facts:
  "initialized (resized_cropper el)" "truthy_src (src (resized_cropper el))"
  "image_ref (resized_cropper el)"
  "\<not> truthy_src (src (resized_cropper el\<lparr>src := None\<rparr>))"
  "initialized (resized_cropper el\<lparr>src := None\<rparr>)"
  by (simp_all add: resized_cropper_def initialized_def sample_cropper_def truthy_src_def)

lemmas fitting_defs =
  resized_cropper_def filling_algorithms_def fitting_algorithms_def sample_cropper_def
  sample_algorithms_def stretched_def fitted_in_def element_size_def image_bounds_def
  areaRestrictions_def areaRestrictions_eval_def positionRestrictions_def
  positionRestrictions_eval_def sizeRestrictions_def sizeRestrictions_eval_def initialized_def
  getAspectRatio_def limit_by_def limit_size_def fit_size_def clamp_size_def fit_position_def
  fit_axis_def Math_max_def Math_min_def max_num_def min_num_def js_or_def js_gt_def js_lt_def
  js_add_def js_sub_def js_mul_def js_div_def Let_def

text \<open>
  Four refreshes with the second set of sample algorithms, the boundaries being 500 x 400
  before: into an element 600 wide without a height (the stretcher makes it 480 high); with
  \<open>'fill'\<close>, into an element of 600 x 300, where the visible area becomes 500 high and the
  coordinates move up into it; into an element without width; and without a source.
\<close>

theorem refresh_order_witness:
  "initialized (resized_cropper (Element (Num 600) Null)) \<and>
   truthy_src (src (resized_cropper (Element (Num 600) Null))) \<and>
   image_ref (resized_cropper (Element (Num 600) Null)) \<and>
   boundaries (resized_cropper (Element (Num 600) Null)) = \<lparr>width = Num 500, height = Num 400\<rparr> \<and>
   snd (refresh fitting_algorithms (resized_cropper (Element (Num 600) Null))) =
     [Call InitStretcher, Call DefaultBoundaries, SetBoundaries \<lparr>width = Num 600, height = Num 480\<rparr>,
      Call FitVisibleArea,
      SetVisibleArea (Obj \<lparr>width = Num 1000, height = Num 800, left = Num 0, top = Num 0\<rparr>),
      Call FitCoordinates,
      SetCoordinates \<lparr>width = Num 300, height = Num 200, left = Num 100, top = Num 400\<rparr>] \<and>
   snd (refresh filling_algorithms (resized_cropper (Element (Num 600) (Num 300)))) =
     [Call InitStretcher, Call DefaultBoundaries, SetBoundaries \<lparr>width = Num 600, height = Num 300\<rparr>,
      Call FitVisibleArea,
      SetVisibleArea (Obj \<lparr>width = Num 1000, height = Num 500, left = Num 0, top = Num 0\<rparr>),
      Call FitCoordinates,
      SetCoordinates \<lparr>width = Num 300, height = Num 200, left = Num 100, top = Num 300\<rparr>] \<and>
   snd (refresh fitting_algorithms (resized_cropper (Element (Num 0) (Num 400)))) =
     [Call InitStretcher, Call DefaultBoundaries, SetBoundaries \<lparr>width = Num 0, height = Num 0\<rparr>,
      SetVisibleArea NullRef] \<and>
   snd (refresh fitting_algorithms (resized_cropper (Element (Num 600) Null)\<lparr>src := None\<rparr>)) = []"
proof -
  let ?a = "resized_cropper (Element (Num 600) Null)"
  let ?b = "resized_cropper (Element (Num 600) (Num 300))"
  let ?c = "resized_cropper (Element (Num 0) (Num 400))"
  let ?d = "resized_cropper (Element (Num 600) Null)\<lparr>src := None\<rparr>"
  note f = resized_facts
  have 0: "boundaries ?a = \<lparr>width = Num 500, height = Num 400\<rparr>"
    by (simp add: resized_cropper_def sample_cropper_def)
  from refresh_order [where env = fitting_algorithms and s = "resized_cropper (Element (Num 600) Null)",
      THEN conjunct1, THEN mp, OF f(1), unfolded Let_def, THEN conjunct2, THEN mp, OF conjI [OF f(2,3)]]
  have 1: "snd (refresh fitting_algorithms ?a) =
     [Call InitStretcher, Call DefaultBoundaries, SetBoundaries \<lparr>width = Num 600, height = Num 480\<rparr>,
      Call FitVisibleArea,
      SetVisibleArea (Obj \<lparr>width = Num 1000, height = Num 800, left = Num 0, top = Num 0\<rparr>),
      Call FitCoordinates,
      SetCoordinates \<lparr>width = Num 300, height = Num 200, left = Num 100, top = Num 400\<rparr>]"
    by (simp add: fitting_defs)
  from refresh_order [where env = filling_algorithms and s = "resized_cropper (Element (Num 600) (Num 300))",
      THEN conjunct1, THEN mp, OF f(1), unfolded Let_def, THEN conjunct2, THEN mp, OF conjI [OF f(2,3)]]
  have 2: "snd (refresh filling_algorithms ?b) =
     [Call InitStretcher, Call DefaultBoundaries, SetBoundaries \<lparr>width = Num 600, height = Num 300\<rparr>,
      Call FitVisibleArea,
      SetVisibleArea (Obj \<lparr>width = Num 1000, height = Num 500, left = Num 0, top = Num 0\<rparr>),
      Call FitCoordinates,
      SetCoordinates \<lparr>width = Num 300, height = Num 200, left = Num 100, top = Num 300\<rparr>]"
    by (simp add: fitting_defs)
  from refresh_order [where env = fitting_algorithms and s = "resized_cropper (Element (Num 0) (Num 400))",
      THEN conjunct1, THEN mp, OF f(1), unfolded Let_def, THEN conjunct2, THEN mp, OF conjI [OF f(2,3)]]
  have 3: "snd (refresh fitting_algorithms ?c) =
     [Call InitStretcher, Call DefaultBoundaries, SetBoundaries \<lparr>width = Num 0, height = Num 0\<rparr>,
      SetVisibleArea NullRef]"
    by (simp add: fitting_defs)
  from refresh_order [where env = fitting_algorithms and s = "resized_cropper (Element (Num 600) Null)\<lparr>src := None\<rparr>",
      THEN conjunct1, THEN mp, OF f(5), unfolded Let_def, THEN conjunct1] f(4) [of "Element (Num 600) Null"]
  have 4: "snd (refresh fitting_algorithms ?d) = []"
    by simp
  from f(1,2,3) 0 1 2 3 4 show ?thesis
    by blast
qed

subsection \<open>Reset\<close>

lemma resetVisibleArea_default_updates [simp]:
  "resetVisibleArea_default env (s\<lparr>delayedTransforms := d\<rparr>) = resetVisibleArea_default env s"
  "resetVisibleArea_default env (s\<lparr>visibleArea := v\<rparr>) = resetVisibleArea_default env s"
  "resetVisibleArea_default env (s\<lparr>visibleArea := v, coordinates := c\<rparr>) =
     resetVisibleArea_default env (s\<lparr>coordinates := c\<rparr>)"
  by (simp_all add: resetVisibleArea_default_def areaRestrictions_def areaRestrictions_eval_def
      cong: function_or_object.case_cong)

lemma areaRestrictions_delayedTransforms [simp]:
  "areaRestrictions env (s\<lparr>delayedTransforms := d\<rparr>) = areaRestrictions env s"
  by (simp add: areaRestrictions_def areaRestrictions_eval_def)

text \<open>
  With a priority other than \<open>'visibleArea'\<close>: the visible area is cleared, the coordinates
  are reset, and then the visible area is refined from a default that sees the new
  coordinates.
\<close>

lemma resetVisibleArea_then_coordinates_first:
  assumes "priority s \<noteq> ''visibleArea''" "image_ref s"
  shows "filter milestone (snd (resetVisibleArea_then env s)) =
           [SetVisibleArea UndefinedRef,
            Call ApplyTransform, SetCoordinates (coordinates (fst (resetVisibleArea_then env s))),
            Call RefineVisibleArea, SetVisibleArea (visibleArea (fst (resetVisibleArea_then env s)))]"
    and "coordinates (fst (resetVisibleArea_then env s)) =
           applyTransform_result env
             (Many (resetCoordinates_transforms env (s\<lparr>visibleArea := UndefinedRef\<rparr>))) True
             (s\<lparr>visibleArea := UndefinedRef\<rparr>)"
    and "visibleArea (fst (resetVisibleArea_then env s)) =
           algorithms_refineVisibleArea env
             (resetVisibleArea_default env
                (s\<lparr>coordinates := coordinates (fst (resetVisibleArea_then env s))\<rparr>))
             (boundaries s) (areaRestrictions env s)"
  using assms
  by (simp_all add: resetVisibleArea_then_def resetCoordinates_simps
      split: function_or_object.splits)

text \<open>
  With the priority \<open>'visibleArea'\<close>: the visible area is refined first, and the coordinates
  are reset in the state that has it.
\<close>

lemma resetVisibleArea_then_visibleArea_first:
  assumes "priority s = ''visibleArea''" "image_ref s"
  shows "filter milestone (snd (resetVisibleArea_then env s)) =
           [Call RefineVisibleArea, SetVisibleArea (visibleArea (fst (resetVisibleArea_then env s))),
            Call ApplyTransform, SetCoordinates (coordinates (fst (resetVisibleArea_then env s)))]"
    and "visibleArea (fst (resetVisibleArea_then env s)) =
           algorithms_refineVisibleArea env (resetVisibleArea_default env s)
             (boundaries s) (areaRestrictions env s)"
    and "coordinates (fst (resetVisibleArea_then env s)) =
           applyTransform_result env
             (Many (resetCoordinates_transforms env
                (s\<lparr>visibleArea := visibleArea (fst (resetVisibleArea_then env s))\<rparr>))) True
             (s\<lparr>visibleArea := visibleArea (fst (resetVisibleArea_then env s))\<rparr>)"
  using assms
  by (simp_all add: resetVisibleArea_then_def resetCoordinates_simps
      split: function_or_object.splits)


lemma called_before_filter:
  "milestone (Call a) \<Longrightarrow> milestone (Call b) \<Longrightarrow>
   called_before a b (filter milestone t) = called_before a b t"
  by (induction t) auto

lemma reset_simps:
  assumes "truthy (width (computed_boundaries env s))" "truthy (height (computed_boundaries env s))"
  shows "fst (reset env s) = fst (resetVisibleArea_then env (fst (snd (updateBoundaries env s))))"
    and "snd (reset env s) =
           [Call InitStretcher, Call DefaultBoundaries, SetBoundaries (computed_boundaries env s)] @
           snd (resetVisibleArea_then env (fst (snd (updateBoundaries env s))))"
  using assms by (simp_all add: reset_def resetVisibleArea_def updateBoundaries_simps)

text \<open>
  C2, amended. A reset of a mounted component whose boundaries resolve to a width and a
  height other than zero recomputes the boundaries first. With the priority
  \<open>'visibleArea'\<close> the visible area is then set through \<open>refineVisibleArea\<close>, and after that
  the coordinates are derived in the state that has this visible area and assigned as
  \<open>algorithms.applyTransform\<close> returns them. With any other priority (the default is
  \<open>'coordinates'\<close>) the visible area is cleared to \<open>undefined\<close>, the coordinates are derived
  and assigned while it is \<open>undefined\<close>, and only then is the visible area set through
  \<open>refineVisibleArea\<close>, from a default visible area that sees the new coordinates. In both
  cases the transforms given to \<open>algorithms.applyTransform\<close> start with the default size,
  then the default position.
\<close>

theorem reset_order:
  "image_ref s \<and> truthy (width (computed_boundaries env s)) \<and>
   truthy (height (computed_boundaries env s)) \<longrightarrow>
     take 3 (snd (reset env s)) =
       [Call InitStretcher, Call DefaultBoundaries, SetBoundaries (computed_boundaries env s)] \<and>
     (priority s = ''visibleArea'' \<longrightarrow>
        filter milestone (snd (reset env s)) =
          [SetBoundaries (computed_boundaries env s),
           Call RefineVisibleArea, SetVisibleArea (visibleArea (fst (reset env s))),
           Call ApplyTransform, SetCoordinates (coordinates (fst (reset env s)))] \<and>
        called_before RefineVisibleArea ApplyTransform (snd (reset env s)) \<and>
        coordinates (fst (reset env s)) =
          applyTransform_result env
            (Many (resetCoordinates_transforms env
               ((fst (snd (updateBoundaries env s)))\<lparr>visibleArea := visibleArea (fst (reset env s))\<rparr>)))
            True
            ((fst (snd (updateBoundaries env s)))\<lparr>visibleArea := visibleArea (fst (reset env s))\<rparr>)) \<and>
     (priority s \<noteq> ''visibleArea'' \<longrightarrow>
        filter milestone (snd (reset env s)) =
          [SetBoundaries (computed_boundaries env s),
           SetVisibleArea UndefinedRef,
           Call ApplyTransform, SetCoordinates (coordinates (fst (reset env s))),
           Call RefineVisibleArea, SetVisibleArea (visibleArea (fst (reset env s)))] \<and>
        called_before ApplyTransform RefineVisibleArea (snd (reset env s)) \<and>
        coordinates (fst (reset env s)) =
          applyTransform_result env
            (Many (resetCoordinates_transforms env
               ((fst (snd (updateBoundaries env s)))\<lparr>visibleArea := UndefinedRef\<rparr>)))
            True
            ((fst (snd (updateBoundaries env s)))\<lparr>visibleArea := UndefinedRef\<rparr>) \<and>
        visibleArea (fst (reset env s)) =
          algorithms_refineVisibleArea env
            (resetVisibleArea_default env
               ((fst (snd (updateBoundaries env s)))\<lparr>coordinates := coordinates (fst (reset env s))\<rparr>))
            (computed_boundaries env s) (areaRestrictions env s)) \<and>
     (\<forall>s'. take 2 (resetCoordinates_transforms env s') =
        [Static (resetCoordinates_defaultSize env s'), Dynamic (resetCoordinates_position env s')])"
proof (intro impI conjI allI)
  assume h: "image_ref s \<and> truthy (width (computed_boundaries env s)) \<and>
    truthy (height (computed_boundaries env s))"
  let ?s1 = "fst (snd (updateBoundaries env s))"
  have f: "image_ref ?s1" "priority ?s1 = priority s" "boundaries ?s1 = computed_boundaries env s"
    "areaRestrictions env ?s1 = areaRestrictions env s"
    using h by (simp_all add: updateBoundaries_simps)
  from h have r: "fst (reset env s) = fst (resetVisibleArea_then env ?s1)"
    "snd (reset env s) =
       [Call InitStretcher, Call DefaultBoundaries, SetBoundaries (computed_boundaries env s)] @
       snd (resetVisibleArea_then env ?s1)"
    by (simp_all add: reset_simps)
  show "take 3 (snd (reset env s)) =
       [Call InitStretcher, Call DefaultBoundaries, SetBoundaries (computed_boundaries env s)]"
    by (simp add: r)
  {
    assume p: "priority s = ''visibleArea''"
    then have p1: "priority ?s1 = ''visibleArea''" by (simp add: f)
    note l = resetVisibleArea_then_visibleArea_first [OF p1 f(1), of env]
    show m: "filter milestone (snd (reset env s)) =
          [SetBoundaries (computed_boundaries env s),
           Call RefineVisibleArea, SetVisibleArea (visibleArea (fst (reset env s))),
           Call ApplyTransform, SetCoordinates (coordinates (fst (reset env s)))]"
      by (simp add: r l(1))
    have "called_before RefineVisibleArea ApplyTransform (filter milestone (snd (reset env s)))"
      by (simp add: m)
    then show "called_before RefineVisibleArea ApplyTransform (snd (reset env s))"
      by (simp add: called_before_filter)
    show "coordinates (fst (reset env s)) =
          applyTransform_result env
            (Many (resetCoordinates_transforms env
               (?s1\<lparr>visibleArea := visibleArea (fst (reset env s))\<rparr>)))
            True (?s1\<lparr>visibleArea := visibleArea (fst (reset env s))\<rparr>)"
      unfolding r by (rule l(3))
  }
  {
    assume p: "priority s \<noteq> ''visibleArea''"
    then have p1: "priority ?s1 \<noteq> ''visibleArea''" by (simp add: f)
    note l = resetVisibleArea_then_coordinates_first [OF p1 f(1), of env]
    show m: "filter milestone (snd (reset env s)) =
          [SetBoundaries (computed_boundaries env s),
           SetVisibleArea UndefinedRef,
           Call ApplyTransform, SetCoordinates (coordinates (fst (reset env s))),
           Call RefineVisibleArea, SetVisibleArea (visibleArea (fst (reset env s)))]"
      by (simp add: r l(1))
    have "called_before ApplyTransform RefineVisibleArea (filter milestone (snd (reset env s)))"
      by (simp add: m)
    then show "called_before ApplyTransform RefineVisibleArea (snd (reset env s))"
      by (simp add: called_before_filter)
    show "coordinates (fst (reset env s)) =
          applyTransform_result env
            (Many (resetCoordinates_transforms env (?s1\<lparr>visibleArea := UndefinedRef\<rparr>)))
            True (?s1\<lparr>visibleArea := UndefinedRef\<rparr>)"
      unfolding r by (rule l(2))
    show "visibleArea (fst (reset env s)) =
          algorithms_refineVisibleArea env
            (resetVisibleArea_default env (?s1\<lparr>coordinates := coordinates (fst (reset env s))\<rparr>))
            (computed_boundaries env s) (areaRestrictions env s)"
      unfolding r by (subst l(3)) (simp only: f)
  }
  fix s'
  show "take 2 (resetCoordinates_transforms env s') =
        [Static (resetCoordinates_defaultSize env s'), Dynamic (resetCoordinates_position env s')]"
    by (simp add: resetCoordinates_transforms_def)
qed

lemma sample_reset_facts:
  "image_ref (sample_cropper\<lparr>priority := p\<rparr>)"
  "computed_boundaries sample_algorithms (sample_cropper\<lparr>priority := p\<rparr>) =
     \<lparr>width = Num 500, height = Num 400\<rparr>"
  by (simp_all add: sample_cropper_def computed_boundaries_def sample_algorithms_def
      element_size_def)

lemma sample_reset_coordinates:
  "applyTransform_result sample_algorithms
     (Many (resetCoordinates_transforms sample_algorithms
        ((fst (snd (updateBoundaries sample_algorithms (sample_cropper\<lparr>priority := p\<rparr>))))
           \<lparr>visibleArea := v\<rparr>)))
     True
     ((fst (snd (updateBoundaries sample_algorithms (sample_cropper\<lparr>priority := p\<rparr>))))
        \<lparr>visibleArea := v\<rparr>) =
   \<lparr>width = Num 1000, height = Num 800, left = Num 0, top = Num 0\<rparr>"
  by (simp add: applyTransform_result_def resetCoordinates_transforms_def
      resetCoordinates_defaultSize_def resetCoordinates_position_def updateBoundaries_simps
      sample_algorithms_def sample_cropper_def whole_image_def)

lemma sample_reset_visibleArea:
  "algorithms_refineVisibleArea sample_algorithms
     (resetVisibleArea_default sample_algorithms s) b ar = Obj (whole_image (imageSize s))"
  by (simp add: resetVisibleArea_default_def sample_algorithms_def)

lemma sample_reset_steps:
  assumes "p \<noteq> ''visibleArea''"
  shows "filter milestone (snd (reset sample_algorithms (sample_cropper\<lparr>priority := p\<rparr>))) =
     [SetBoundaries \<lparr>width = Num 500, height = Num 400\<rparr>,
      SetVisibleArea UndefinedRef,
      Call ApplyTransform,
      SetCoordinates \<lparr>width = Num 1000, height = Num 800, left = Num 0, top = Num 0\<rparr>,
      Call RefineVisibleArea,
      SetVisibleArea (Obj \<lparr>width = Num 1000, height = Num 800, left = Num 0, top = Num 0\<rparr>)]"
proof -
  let ?s = "sample_cropper\<lparr>priority := p\<rparr>"
  let ?s1 = "fst (snd (updateBoundaries sample_algorithms ?s))"
  have f: "image_ref ?s1" "priority ?s1 \<noteq> ''visibleArea''"
    using assms by (simp_all add: updateBoundaries_simps sample_cropper_def)
  note l = resetVisibleArea_then_coordinates_first [OF f(2) f(1), of sample_algorithms]
  have c: "coordinates (fst (resetVisibleArea_then sample_algorithms ?s1)) =
      \<lparr>width = Num 1000, height = Num 800, left = Num 0, top = Num 0\<rparr>"
    by (simp only: l(2) sample_reset_coordinates)
  have i: "imageSize (?s1\<lparr>coordinates := c\<rparr>) = \<lparr>width = Num 1000, height = Num 800\<rparr>" for c
    by (simp add: updateBoundaries_simps sample_cropper_def)
  have v: "visibleArea (fst (resetVisibleArea_then sample_algorithms ?s1)) =
      Obj \<lparr>width = Num 1000, height = Num 800, left = Num 0, top = Num 0\<rparr>"
    by (subst l(3)) (simp only: sample_reset_visibleArea i, simp add: whole_image_def)
  have r: "snd (reset sample_algorithms ?s) =
       [Call InitStretcher, Call DefaultBoundaries, SetBoundaries \<lparr>width = Num 500, height = Num 400\<rparr>] @
       snd (resetVisibleArea_then sample_algorithms ?s1)"
    using reset_simps(2) [of sample_algorithms ?s] by (simp add: sample_reset_facts)
  show ?thesis
    by (simp add: r l(1) c v)
qed

lemma sample_cropper_priority: "sample_cropper\<lparr>priority := ''coordinates''\<rparr> = sample_cropper"
  by (simp add: sample_cropper_def)

text \<open>
  C2 as stated fails on the sample component, whose priority is the default
  \<open>'coordinates'\<close>: the reset derives and assigns the coordinates while the visible area is
  \<open>undefined\<close>, before \<open>refineVisibleArea\<close> is called.
\<close>

theorem reset_order_counterexample:
  "filter milestone (snd (reset sample_algorithms sample_cropper)) =
     [SetBoundaries \<lparr>width = Num 500, height = Num 400\<rparr>,
      SetVisibleArea UndefinedRef,
      Call ApplyTransform,
      SetCoordinates \<lparr>width = Num 1000, height = Num 800, left = Num 0, top = Num 0\<rparr>,
      Call RefineVisibleArea,
      SetVisibleArea (Obj \<lparr>width = Num 1000, height = Num 800, left = Num 0, top = Num 0\<rparr>)] \<and>
   \<not> called_before RefineVisibleArea ApplyTransform (snd (reset sample_algorithms sample_cropper))"
proof -
  have m: "filter milestone (snd (reset sample_algorithms sample_cropper)) =
     [SetBoundaries \<lparr>width = Num 500, height = Num 400\<rparr>,
      SetVisibleArea UndefinedRef,
      Call ApplyTransform,
      SetCoordinates \<lparr>width = Num 1000, height = Num 800, left = Num 0, top = Num 0\<rparr>,
      Call RefineVisibleArea,
      SetVisibleArea (Obj \<lparr>width = Num 1000, height = Num 800, left = Num 0, top = Num 0\<rparr>)]"
    using sample_reset_steps [of "''coordinates''"] by (simp add: sample_cropper_priority)
  have "\<not> called_before RefineVisibleArea ApplyTransform
          (filter milestone (snd (reset sample_algorithms sample_cropper)))"
    by (simp add: m)
  then have "\<not> called_before RefineVisibleArea ApplyTransform
          (snd (reset sample_algorithms sample_cropper))"
    by (simp add: called_before_filter)
  with m show ?thesis by blast
qed

text \<open>The reset of the sample component under both priorities.\<close>

theorem reset_order_witness:
  "image_ref (sample_cropper\<lparr>priority := ''visibleArea''\<rparr>) \<and>
   truthy (width (computed_boundaries sample_algorithms (sample_cropper\<lparr>priority := ''visibleArea''\<rparr>))) \<and>
   truthy (height (computed_boundaries sample_algorithms (sample_cropper\<lparr>priority := ''visibleArea''\<rparr>))) \<and>
   priority (sample_cropper\<lparr>priority := ''visibleArea''\<rparr>) = ''visibleArea'' \<and>
   called_before RefineVisibleArea ApplyTransform
     (snd (reset sample_algorithms (sample_cropper\<lparr>priority := ''visibleArea''\<rparr>))) \<and>
   priority (sample_cropper\<lparr>priority := ''coordinates''\<rparr>) \<noteq> ''visibleArea'' \<and>
   called_before ApplyTransform RefineVisibleArea
     (snd (reset sample_algorithms (sample_cropper\<lparr>priority := ''coordinates''\<rparr>))) \<and>
   coordinates (fst (reset sample_algorithms (sample_cropper\<lparr>priority := ''coordinates''\<rparr>))) =
     \<lparr>width = Num 1000, height = Num 800, left = Num 0, top = Num 0\<rparr>"
proof -
  let ?v = "sample_cropper\<lparr>priority := ''visibleArea''\<rparr>"
  let ?c = "sample_cropper\<lparr>priority := ''coordinates''\<rparr>"
  have h: "image_ref ?v \<and> truthy (width (computed_boundaries sample_algorithms ?v)) \<and>
      truthy (height (computed_boundaries sample_algorithms ?v))"
    "image_ref ?c \<and> truthy (width (computed_boundaries sample_algorithms ?c)) \<and>
      truthy (height (computed_boundaries sample_algorithms ?c))"
    by (simp_all add: sample_reset_facts)
  have p: "priority ?v = ''visibleArea''" "priority ?c \<noteq> ''visibleArea''"
    by simp_all
  from reset_order [of ?v sample_algorithms] h(1) p(1)
  have 1: "called_before RefineVisibleArea ApplyTransform (snd (reset sample_algorithms ?v))"
    by blast
  from reset_order [of ?c sample_algorithms] h(2) p(2)
  have 2: "called_before ApplyTransform RefineVisibleArea (snd (reset sample_algorithms ?c))"
    and 3: "coordinates (fst (reset sample_algorithms ?c)) =
          applyTransform_result sample_algorithms
            (Many (resetCoordinates_transforms sample_algorithms
               ((fst (snd (updateBoundaries sample_algorithms ?c)))\<lparr>visibleArea := UndefinedRef\<rparr>)))
            True
            ((fst (snd (updateBoundaries sample_algorithms ?c)))\<lparr>visibleArea := UndefinedRef\<rparr>)"
    by blast+
  from 3 have 4: "coordinates (fst (reset sample_algorithms ?c)) =
      \<lparr>width = Num 1000, height = Num 800, left = Num 0, top = Num 0\<rparr>"
    by (simp only: sample_reset_coordinates)
  from h(1) p 1 2 4 show ?thesis by blast
qed

subsection \<open>Rounding the result\<close>












lemma exact_width_facts:
  "initialized exact_width_cropper" "roundResult exact_width_cropper"
  "coordinates exact_width_cropper =
     \<lparr>width = Num (199 / 2), height = Num 200, left = Num 100, top = Num 100\<rparr>"
  "sizeRestrictions rounding_algorithms exact_width_cropper =
     \<lparr>minWidth = Num (199 / 2), minHeight = Num 0, maxWidth = Num (199 / 2), maxHeight = PInf\<rparr>"
  "algorithms_limitBy rounding_algorithms
     (positionRestrictions rounding_algorithms exact_width_cropper)
     (visibleArea exact_width_cropper) =
     \<lparr>left_bound = Num 0, top_bound = Num 0, right_bound = Num 1000, bottom_bound = Num 800\<rparr>"
  "algorithms_roundCoordinates rounding_algorithms = roundCoordinates"
  by (simp_all add: exact_width_cropper_def rounding_algorithms_def fitting_algorithms_def
      sample_cropper_def sample_algorithms_def initialized_def sizeRestrictions_def
      sizeRestrictions_eval_def positionRestrictions_def positionRestrictions_eval_def
      image_bounds_def limit_by_def Math_max_def Math_min_def max_num_def min_num_def js_add_def
      Let_def)


text \<open>
  No whole number lies between a minimum width and a maximum width that are both 99.5:
  whatever whole width a rounding returns breaks one of the two.
\<close>

lemma exact_width_no_whole_width:
  "integral w \<Longrightarrow>
   \<not> (js_le (minWidth (sizeRestrictions rounding_algorithms exact_width_cropper)) w \<and>
      js_le w (maxWidth (sizeRestrictions rounding_algorithms exact_width_cropper)))"
proof -
  assume "integral w"
  then obtain k :: int where k: "w = Num (of_int k)" by (rule integralE)
  have "\<not> ((199 / 2 :: real) \<le> of_int k \<and> (of_int k :: real) \<le> 199 / 2)"
  proof
    assume "(199 / 2 :: real) \<le> of_int k \<and> (of_int k :: real) \<le> 199 / 2"
    then have "(of_int (2 * k) :: real) = of_int 199"
      by simp
    then have "2 * k = 199"
      by (simp only: of_int_eq_iff)
    then show False
      by presburger
  qed
  then show ?thesis
    by (simp add: k exact_width_facts js_le_def le_num_def not_le)
qed





end
